theory Spec2Isabelle
  imports Complex_Main "HOL-Library.AList"
begin

section \<open>JavaScript values\<close>

text \<open>
  The server in \<^verbatim>\<open>index.js\<close> exchanges JSON with the payment provider and keeps
  order documents in a document store. This section models the JavaScript values the
  three order handlers read and write.

  A parsed JSON value is a \<open>jsval\<close>; JavaScript's \<^verbatim>\<open>undefined\<close> (a missing property)
  is \<open>None\<close> of \<open>jsval option\<close>. An object is the list of its properties in insertion
  order, each name once, as \<^verbatim>\<open>JSON.parse\<close> builds it. JSON numbers inside provider
  payloads are integers (identifiers, flags).
  Strings are ASCII, so that \<^verbatim>\<open>toUpperCase\<close> and \<^verbatim>\<open>toLowerCase\<close> act on the letters
  a-z and A-Z only.
\<close>

datatype jsval =
    JNull
  | JBool bool
  | JNum int
  | JStr string
  | JArr "jsval list"
  | JObj "(string \<times> jsval) list"

text \<open>A thrown \<^verbatim>\<open>Error\<close> (or \<^verbatim>\<open>TypeError\<close>), with its \<^verbatim>\<open>message\<close>.\<close>

datatype js_error = Thrown (message: string)

text \<open>Truthiness, as tested by \<^verbatim>\<open>if (x)\<close>, \<^verbatim>\<open>x && y\<close>, \<^verbatim>\<open>x || y\<close> and \<^verbatim>\<open>x ? y : z\<close>.\<close>

fun truthy :: "jsval option \<Rightarrow> bool" where
  "truthy None = False"
| "truthy (Some JNull) = False"
| "truthy (Some (JBool b)) = b"
| "truthy (Some (JNum n)) = (n \<noteq> 0)"
| "truthy (Some (JStr s)) = (s \<noteq> [])"
| "truthy (Some (JArr xs)) = True"
| "truthy (Some (JObj kvs)) = True"

text \<open>Truthiness of a String-typed document path (unset, or a string).\<close>

fun truthy_str :: "string option \<Rightarrow> bool" where
  "truthy_str None = False"
| "truthy_str (Some s) = (s \<noteq> [])"

text \<open>
  Reading one of the properties \<^verbatim>\<open>status\<close>, \<^verbatim>\<open>data\<close>, \<^verbatim>\<open>message\<close>, \<^verbatim>\<open>id\<close> of a
  value that is neither \<^verbatim>\<open>null\<close> nor \<^verbatim>\<open>undefined\<close>: an object yields the property
  if it has one; booleans, numbers, strings and arrays have no such property.
\<close>

fun get :: "string \<Rightarrow> jsval \<Rightarrow> jsval option" where
  "get k (JObj kvs) = map_of kvs k"
| "get k v = None"

text \<open>
  The test \<^verbatim>\<open>r.status && r.data\<close> on a provider response \<open>r\<close>, made by every
  handler. Reading \<^verbatim>\<open>r.status\<close> throws when the body parsed to \<^verbatim>\<open>null\<close>. The result
  is the data when both are truthy.
\<close>

definition response_ok :: "jsval \<Rightarrow> js_error + jsval option" where
  "response_ok r =
     (if r = JNull then Inl (Thrown ''Cannot read properties of null (reading 'status')'')
      else if truthy (get ''status'' r) \<and> truthy (get ''data'' r)
      then Inr (get ''data'' r) else Inr None)"

definition toUpperChar :: "char \<Rightarrow> char" where
  "toUpperChar c =
     (case map_of (zip ''abcdefghijklmnopqrstuvwxyz'' ''ABCDEFGHIJKLMNOPQRSTUVWXYZ'') c of
        Some u \<Rightarrow> u | None \<Rightarrow> c)"

definition toLowerChar :: "char \<Rightarrow> char" where
  "toLowerChar c =
     (case map_of (zip ''ABCDEFGHIJKLMNOPQRSTUVWXYZ'' ''abcdefghijklmnopqrstuvwxyz'') c of
        Some l \<Rightarrow> l | None \<Rightarrow> c)"

definition toUpperCase :: "string \<Rightarrow> string" where
  "toUpperCase s = map toUpperChar s"

definition toLowerCase :: "string \<Rightarrow> string" where
  "toLowerCase s = map toLowerChar s"

text \<open>
  The method call \<^verbatim>\<open>x.toUpperCase()\<close> (or \<^verbatim>\<open>x.toLowerCase()\<close>) on a property value
  \<open>x\<close>: only a string has the method; on anything else the call throws a TypeError,
  with the message of the V8 engine. The arguments are the source text of \<open>x\<close>, the
  name of the method and its case mapping.
\<close>

fun call_case_method ::
  "string \<Rightarrow> string \<Rightarrow> (string \<Rightarrow> string) \<Rightarrow> jsval option \<Rightarrow> js_error + string" where
  "call_case_method x m f (Some (JStr s)) = Inr (f s)"
| "call_case_method x m f None =
     Inl (Thrown (''Cannot read properties of undefined (reading '' @ [CHR 0x27] @ m
                    @ [CHR 0x27] @ '')''))"
| "call_case_method x m f (Some JNull) =
     Inl (Thrown (''Cannot read properties of null (reading '' @ [CHR 0x27] @ m
                    @ [CHR 0x27] @ '')''))"
| "call_case_method x m f (Some v) = Inl (Thrown (x @ ''.'' @ m @ '' is not a function''))"

text \<open>
  The decimal digits of a natural number, and the decimal string of an integer: the
  property name of an array index, and \<^verbatim>\<open>String(n)\<close>.
\<close>

function digits :: "nat \<Rightarrow> string" where
  "digits n =
     (if n < 10 then [char_of (48 + n)]
      else digits (n div 10) @ [char_of (48 + n mod 10)])"
  by pat_completeness auto
termination
  by (relation "measure id") auto

declare digits.simps [simp del]

definition show_int :: "int \<Rightarrow> string" where
  "show_int i = (if i < 0 then CHR ''-'' # digits (nat (- i)) else digits (nat i))"

text \<open>
  Object spread \<^verbatim>\<open>{...a, ...b}\<close>: the own enumerable properties of \<open>a\<close>, then those of
  \<open>b\<close>, are assigned to a fresh object in order. Assigning an existing key overwrites
  its value in place; a new key is appended. \<^verbatim>\<open>undefined\<close>, \<^verbatim>\<open>null\<close>, booleans and
  numbers contribute nothing; a string or an array contributes its indexed elements.
\<close>

fun own_props :: "jsval option \<Rightarrow> (string \<times> jsval) list" where
  "own_props (Some (JObj kvs)) = kvs"
| "own_props (Some (JArr xs)) = zip (map digits [0..<length xs]) xs"
| "own_props (Some (JStr s)) = zip (map digits [0..<length s]) (map (\<lambda>c. JStr [c]) s)"
| "own_props v = []"

definition assign_props :: "(string \<times> jsval) list \<Rightarrow> (string \<times> jsval) list \<Rightarrow> (string \<times> jsval) list" where
  "assign_props target src = foldl (\<lambda>acc (k, v). AList.update k v acc) target src"

definition spread :: "jsval option \<Rightarrow> jsval option \<Rightarrow> jsval" where
  "spread a b = JObj (assign_props (assign_props [] (own_props a)) (own_props b))"

text \<open>
  The cast that the object-document mapper (the ODM, Mongoose) applies to a value
  assigned to a String-typed path of the schema: \<^verbatim>\<open>null\<close> and
  \<^verbatim>\<open>undefined\<close> leave the path without a value, a scalar is converted to its string,
  and an object or array cannot be cast: the assignment is dropped and the document
  fails validation when it is saved.
\<close>

datatype 'a cast = Cast 'a | CastError

fun castString :: "jsval option \<Rightarrow> string option cast" where
  "castString None = Cast None"
| "castString (Some JNull) = Cast None"
| "castString (Some (JStr s)) = Cast (Some s)"
| "castString (Some (JNum n)) = Cast (Some (show_int n))"
| "castString (Some (JBool b)) = Cast (Some (if b then ''true'' else ''false''))"
| "castString (Some (JArr xs)) = CastError"
| "castString (Some (JObj kvs)) = CastError"

section \<open>JavaScript numbers\<close>

text \<open>
  A JavaScript number is an IEEE 754 double: \<^verbatim>\<open>NaN\<close>, an infinity, or a finite value,
  held here as the rational it denotes. Every arithmetic operation computes the exact
  rational result and rounds it to the nearest double, ties to even (\<open>rnd\<close>): 53
  significant bits, gradual underflow below \<open>2\<^sup>-\<^sup>1\<^sup>0\<^sup>2\<^sup>2\<close>, overflow to an infinity.
  The sign of zero is not represented; no handler observes it. \<open>bitlen\<close> is the number
  of binary digits of a positive integer.
\<close>

datatype jsnum = NaN | PosInf | NegInf | Fin rat

function bitlen :: "int \<Rightarrow> int" where
  "bitlen n = (if n \<le> 0 then 0 else 1 + bitlen (n div 2))"
  by pat_completeness auto
termination
  by (relation "measure nat") auto

declare bitlen.simps [simp del]

definition pow2 :: "int \<Rightarrow> rat" where
  "pow2 e = (if 0 \<le> e then 2 ^ nat e else 1 / 2 ^ nat (- e))"

text \<open>The binary exponent of a positive rational: \<open>pow2 (ilog2 a) \<le> a < pow2 (ilog2 a + 1)\<close>.\<close>

definition ilog2 :: "rat \<Rightarrow> int" where
  "ilog2 a = (if 1 \<le> a then bitlen \<lfloor>a\<rfloor> - 1 else - bitlen (\<lceil>1 / a\<rceil> - 1))"

definition round_half_even :: "rat \<Rightarrow> int" where
  "round_half_even q =
     (let f = \<lfloor>q\<rfloor>; d = q - of_int f
      in if d < 1 / 2 then f else if 1 / 2 < d then f + 1
         else if even f then f else f + 1)"

definition rnd :: "rat \<Rightarrow> jsnum" where
  "rnd x =
     (if x = 0 then Fin 0
      else let a = \<bar>x\<bar>;
               e = max (ilog2 a) (- 1022);
               u = pow2 (e - 52);
               r = of_int (round_half_even (a / u)) * u
           in if pow2 1024 \<le> r then (if 0 < x then PosInf else NegInf)
              else Fin (if 0 < x then r else - r))"

fun jneg :: "jsnum \<Rightarrow> jsnum" where
  "jneg (Fin a) = Fin (- a)"
| "jneg PosInf = NegInf"
| "jneg NegInf = PosInf"
| "jneg NaN = NaN"

text \<open>The operators \<^verbatim>\<open>+\<close> and \<^verbatim>\<open>*\<close> on numbers.\<close>

fun jadd :: "jsnum \<Rightarrow> jsnum \<Rightarrow> jsnum" where
  "jadd (Fin a) (Fin b) = rnd (a + b)"
| "jadd NaN y = NaN"
| "jadd x NaN = NaN"
| "jadd PosInf NegInf = NaN"
| "jadd NegInf PosInf = NaN"
| "jadd (Fin a) y = y"
| "jadd x y = x"

fun jmul :: "jsnum \<Rightarrow> jsnum \<Rightarrow> jsnum" where
  "jmul (Fin a) (Fin b) = rnd (a * b)"
| "jmul NaN y = NaN"
| "jmul x NaN = NaN"
| "jmul (Fin a) y = (if a = 0 then NaN else if 0 < a then y else jneg y)"
| "jmul x (Fin b) = (if b = 0 then NaN else if 0 < b then x else jneg x)"
| "jmul PosInf y = y"
| "jmul NegInf y = jneg y"

text \<open>Division by the literal 100, the only divisor in the source: \<^verbatim>\<open>x / 100\<close>.\<close>

fun jdiv100 :: "jsnum \<Rightarrow> jsnum" where
  "jdiv100 (Fin a) = rnd (a / 100)"
| "jdiv100 x = x"

text \<open>\<^verbatim>\<open>Math.ceil\<close>.\<close>

fun ceil :: "jsnum \<Rightarrow> jsnum" where
  "ceil (Fin a) = Fin (of_int \<lceil>a\<rceil>)"
| "ceil x = x"

text \<open>\<^verbatim>\<open>x || 0\<close> on a number: \<^verbatim>\<open>NaN\<close> and zero are falsy.\<close>

definition or_zero :: "jsnum \<Rightarrow> jsnum" where
  "or_zero x = (if x = NaN \<or> x = Fin 0 then Fin 0 else x)"

section \<open>Catalogs, orders, the provider and the store\<close>

text \<open>
  The entries of \<^verbatim>\<open>productsCache\<close> and \<^verbatim>\<open>paymentMethodsCache\<close>, with the fields the
  create-order handler reads. The text fields are strings; the numeric fields hold the
  result of \<^verbatim>\<open>parseFloat\<close> on the cached value.
\<close>

record product =
  code :: string
  provider :: string
  category :: string
  name :: string
  img_url :: "string option"
  price :: jsnum

record payment_method =
  metode :: string
  name :: string
  type :: string
  fee :: jsnum
  fee_persen :: jsnum

text \<open>
  The body of a create-order request. An absent field and an empty string are both falsy
  and are both held as the empty string.
\<close>

record req_body =
  productId :: string
  targetId :: string
  paymentMethodCode :: string
  providerName :: string

text \<open>The order document, field by field as \<^verbatim>\<open>orderSchema\<close> declares it.\<close>

record order =
  orderId :: string
  productId :: string
  productName :: string
  productPrice :: jsnum
  providerName :: string
  productImgUrl :: "string option"
  targetId :: string
  paymentMethodCode :: string
  paymentMethodName :: string
  adminFeePaymentMethod :: jsnum
  adminFeeGlobal :: jsnum
  totalAdminFee :: jsnum
  totalAmountToPayForDeposit :: jsnum
  status :: string
  atlanticDepositId :: "string option"
  depositReffId :: "string option"
  depositDetails :: "jsval option"
  atlanticTransactionId :: "string option"
  transactionReffId :: "string option"
  transactionDetails :: "jsval option"
  createdAt :: nat
  updatedAt :: nat

text \<open>
  The \<^verbatim>\<open>required\<close> paths of the schema, checked when a document is saved: a required
  string must be non-empty. The two required numbers always have a value here. When the
  check fails, or a cast on assignment has failed, \<^verbatim>\<open>save()\<close> throws; the text of its
  error message is abbreviated.
\<close>

definition validate :: "order \<Rightarrow> bool" where
  "validate d \<longleftrightarrow>
     orderId d \<noteq> [] \<and> productId d \<noteq> [] \<and> productName d \<noteq> [] \<and> providerName d \<noteq> [] \<and>
     targetId d \<noteq> [] \<and> paymentMethodCode d \<noteq> [] \<and> paymentMethodName d \<noteq> [] \<and>
     status d \<noteq> []"

text \<open>
  The order collection, keyed by \<^verbatim>\<open>orderId\<close> (a unique index). \<^verbatim>\<open>Order.findOne\<close> is
  the lookup. \<^verbatim>\<open>save\<close> on a loaded document writes back, under the key it was found
  by, the paths that were assigned since the load. Both details paths are declared
  \<^verbatim>\<open>{ type: Object }\<close>, a Mixed path: an assignment to the path is written back, a
  property set in place inside its value is not (nothing in the source calls
  \<^verbatim>\<open>markModified\<close>). The order-status handler only ever assigns, so what it saves is
  the in-memory document; the one write in place is in the cancel-order handler (line
  392). The database itself does not fail.
\<close>

type_synonym store = "string \<rightharpoonup> order"

text \<open>
  The five provider endpoints the handlers call through \<^verbatim>\<open>fetchAtlanticAPI\<close>, with the
  body parameters of each call.
\<close>

datatype call =
    Deposit_create string jsnum string string
  | Deposit_status "string option"
  | Deposit_cancel "string option"
  | Transaksi_create string string string
  | Transaksi_status "string option"

text \<open>
  What a handler finds around it: the provider, which answers a call with a parsed JSON
  body or makes \<^verbatim>\<open>fetchAtlanticAPI\<close> throw, and the clock read by \<^verbatim>\<open>new Date()\<close> and
  \<^verbatim>\<open>Date.now()\<close>. Within one request no endpoint is called twice, so the provider is a
  function of the call; every clock read of one request returns the same instant.
\<close>

record env =
  fetchAtlanticAPI :: "call \<Rightarrow> js_error + jsval"
  now :: nat

text \<open>
  The HTTP response of a handler: a failure with its status code and message, the order
  after reconciliation, the confirmation of a cancellation, or the data of a new order
  (order id, payment details, product name, target id, base price, total admin fee,
  total amount).
\<close>

datatype response =
    Failure nat jsval
  | Order_data order
  | Cancelled order
  | Created string jsval string string jsnum jsnum jsnum

text \<open>\<^verbatim>\<open>v || d\<close> on a property value.\<close>

definition or_default :: "jsval option \<Rightarrow> jsval \<Rightarrow> jsval" where
  "or_default v d = (case v of None \<Rightarrow> d | Some x \<Rightarrow> if truthy v then x else d)"

section \<open>The order-status handler (reconcile)\<close>

text \<open>
  How the body of the handler's \<^verbatim>\<open>try\<close> block ends: an exception reaches the outer
  \<^verbatim>\<open>catch\<close> (with the in-memory document as it was at the throw), the document is
  returned without a save, or \<^verbatim>\<open>order.save()\<close> is called on it (the flag records a
  failed cast on an earlier assignment).
\<close>

datatype outcome =
    Threw js_error order
  | Unsaved order
  | Saving order bool

text \<open>
  The \<^verbatim>\<open>try\<close>/\<^verbatim>\<open>catch\<close> around transaction creation, written twice in the source (first
  attempt and retry) with the same statements; the two copies differ in the suffix of
  their two messages only (empty, or \<^verbatim>\<open> (ulang)\<close>). The result is the document after
  the block, whether the cast of the transaction id failed, and the call made.
\<close>

definition tx_error :: "string \<Rightarrow> js_error \<Rightarrow> order \<Rightarrow> order" where
  "tx_error suffix txError d =
     d\<lparr>status := ''TRANSACTION_CREATION_ERROR'',
       transactionDetails :=
         Some (JObj [(''error'', JStr (''Internal error'' @ suffix @ '': '' @ message txError))])\<rparr>"

definition try_create_transaction ::
  "string \<Rightarrow> env \<Rightarrow> string \<Rightarrow> order \<Rightarrow> order \<times> bool \<times> call list" where
  "try_create_transaction suffix env transactionReffId0 d =
     (let c = Transaksi_create (productId d) transactionReffId0 (targetId d) in
      case fetchAtlanticAPI env c of
        Inl txError \<Rightarrow> (tx_error suffix txError d, False, [c])
      | Inr createTransactionResponse \<Rightarrow>
          (case response_ok createTransactionResponse of
             Inl txError \<Rightarrow> (tx_error suffix txError d, False, [c])
           | Inr None \<Rightarrow>
               (d\<lparr>status := ''TRANSACTION_CREATION_FAILED'',
                  transactionDetails :=
                    Some (JObj [(''error'',
                      or_default (get ''message'' createTransactionResponse)
                        (JStr (''Gagal membuat transaksi'' @ suffix)))])\<rparr>,
                False, [c])
           | Inr (Some data) \<Rightarrow>
               (let (txid, bad) =
                      (case castString (get ''id'' data) of
                         Cast v \<Rightarrow> (v, False)
                       | CastError \<Rightarrow> (atlanticTransactionId d, True));
                    d1 = d\<lparr>atlanticTransactionId := txid, transactionDetails := Some data\<rparr>
                in case (if truthy (get ''status'' data)
                         then call_case_method ''createTransactionResponse.data.status''
                                ''toUpperCase'' toUpperCase (get ''status'' data)
                         else Inr ''ORDER_PROCESSING'') of
                     Inl txError \<Rightarrow> (tx_error suffix txError d1, bad, [c])
                   | Inr s \<Rightarrow>
                       (d1\<lparr>status := (if s = ''PENDING'' then ''ORDER_PROCESSING'' else s)\<rparr>,
                        bad, [c]))))"

text \<open>The branch for an order in \<^verbatim>\<open>PENDING_PAYMENT\<close> or \<^verbatim>\<open>PAYMENT_PROCESSING\<close>.\<close>

definition reconcile_deposit :: "env \<Rightarrow> order \<Rightarrow> outcome \<times> call list" where
  "reconcile_deposit env d =
     (let c = Deposit_status (atlanticDepositId d) in
      case fetchAtlanticAPI env c of
        Inl e \<Rightarrow> (Threw e d, [c])
      | Inr depositStatusResponse \<Rightarrow>
          (case response_ok depositStatusResponse of
             Inl e \<Rightarrow> (Threw e d, [c])
           | Inr None \<Rightarrow> (Unsaved d, [c])
           | Inr (Some data) \<Rightarrow>
               (case call_case_method ''depositStatusResponse.data.status'' ''toUpperCase''
                       toUpperCase (get ''status'' data) of
                  Inl e \<Rightarrow> (Threw e d, [c])
                | Inr atlanticStatus \<Rightarrow>
                    (let d1 = d\<lparr>updatedAt := now env,
                                 depositDetails := Some (spread (depositDetails d) (Some data))\<rparr>
                     in if atlanticStatus = ''SUCCESS'' then
                          (let transactionReffId0 = ''TRX-'' @ orderId d1;
                               d2 = d1\<lparr>status := ''PAYMENT_SUCCESSFUL_PROCESSING_ORDER'',
                                       transactionReffId := Some transactionReffId0\<rparr>;
                               (d3, bad, cs) = try_create_transaction [] env transactionReffId0 d2
                           in (Saving d3 bad, c # cs))
                        else if atlanticStatus \<in> set [''EXPIRED'', ''FAILED'', ''CANCEL''] then
                          (Saving (d1\<lparr>status := ''PAYMENT_'' @ atlanticStatus\<rparr>) False, [c])
                        else if atlanticStatus = ''PENDING'' then
                          (Saving (d1\<lparr>status := ''PENDING_PAYMENT''\<rparr>) False, [c])
                        else
                          (Saving (d1\<lparr>status := ''PAYMENT_PROCESSING''\<rparr>) False, [c])))))"

text \<open>
  The branch for an order in \<^verbatim>\<open>ORDER_PROCESSING\<close>,
  \<^verbatim>\<open>PAYMENT_SUCCESSFUL_PROCESSING_ORDER\<close> or \<^verbatim>\<open>TRANSACTION_CREATION_FAILED\<close>.
\<close>

definition transaction_next_status :: "string \<Rightarrow> string" where
  "transaction_next_status atlanticTxStatus =
     (if atlanticTxStatus = ''SUCCESS'' then ''ORDER_COMPLETED''
      else if atlanticTxStatus \<in> set [''FAILED'', ''ERROR''] then ''ORDER_FAILED''
      else if atlanticTxStatus = ''PENDING'' then ''ORDER_PROCESSING''
      else atlanticTxStatus)"

definition reconcile_transaction :: "env \<Rightarrow> order \<Rightarrow> outcome \<times> call list" where
  "reconcile_transaction env d =
     (if truthy_str (atlanticTransactionId d) then
        (let c = Transaksi_status (atlanticTransactionId d) in
         case fetchAtlanticAPI env c of
           Inl e \<Rightarrow> (Threw e d, [c])
         | Inr transactionStatusResponse \<Rightarrow>
             (let d1 = d\<lparr>updatedAt := now env\<rparr> in
              case response_ok transactionStatusResponse of
                Inl e \<Rightarrow> (Threw e d1, [c])
              | Inr None \<Rightarrow> (Saving d1 False, [c])
              | Inr (Some data) \<Rightarrow>
                  (case call_case_method ''transactionStatusResponse.data.status''
                          ''toUpperCase'' toUpperCase (get ''status'' data) of
                     Inl e \<Rightarrow> (Threw e d1, [c])
                   | Inr atlanticTxStatus \<Rightarrow>
                       (Saving
                          (d1\<lparr>transactionDetails :=
                                Some (spread (transactionDetails d1) (Some data)),
                              status := transaction_next_status atlanticTxStatus\<rparr>)
                          False, [c]))))
      else if status d = ''PAYMENT_SUCCESSFUL_PROCESSING_ORDER''
              \<and> \<not> truthy_str (atlanticTransactionId d) then
        (let transactionReffId0 = ''TRX-'' @ orderId d;
             d1 = d\<lparr>updatedAt := now env, transactionReffId := Some transactionReffId0\<rparr>;
             (d2, bad, cs) = try_create_transaction '' (ulang)'' env transactionReffId0 d1
         in (Saving d2 bad, cs))
      else (Unsaved d, []))"

text \<open>The dispatch on the stored status, and the handler around it.\<close>

definition reconcile :: "env \<Rightarrow> order \<Rightarrow> outcome \<times> call list" where
  "reconcile env d =
     (if status d = ''PENDING_PAYMENT'' \<or> status d = ''PAYMENT_PROCESSING'' then
        reconcile_deposit env d
      else if status d = ''ORDER_PROCESSING''
              \<or> status d = ''PAYMENT_SUCCESSFUL_PROCESSING_ORDER''
              \<or> status d = ''TRANSACTION_CREATION_FAILED'' then
        reconcile_transaction env d
      else (Unsaved d, []))"

definition order_status :: "env \<Rightarrow> store \<Rightarrow> string \<Rightarrow> response \<times> store \<times> call list" where
  "order_status env db oid =
     (if oid = [] then (Failure 400 (JStr ''Order ID diperlukan.''), db, [])
      else case db oid of
        None \<Rightarrow> (Failure 404 (JStr ''Pesanan tidak ditemukan.''), db, [])
      | Some d \<Rightarrow>
          (case reconcile env d of
             (Threw e d', cs) \<Rightarrow>
               (Failure 500 (JStr (''Internal server error: '' @ message e)), db, cs)
           | (Unsaved d', cs) \<Rightarrow> (Order_data d', db, cs)
           | (Saving d' bad, cs) \<Rightarrow>
               if bad \<or> \<not> validate d' then
                 (Failure 500 (JStr ''Internal server error: Order validation failed''), db, cs)
               else (Order_data d', db(oid \<mapsto> d'), cs)))"

section \<open>The cancel-order handler\<close>

text \<open>
  The success test of the handler:
  \<^verbatim>\<open>r.status && r.data && r.data.status && r.data.status.toLowerCase() === 'cancel'\<close>.
\<close>

definition cancel_ok :: "jsval \<Rightarrow> js_error + bool" where
  "cancel_ok cancelResponse =
     (case response_ok cancelResponse of
        Inl e \<Rightarrow> Inl e
      | Inr None \<Rightarrow> Inr False
      | Inr (Some data) \<Rightarrow>
          if truthy (get ''status'' data) then
            (case call_case_method ''cancelResponse.data.status'' ''toLowerCase''
                    toLowerCase (get ''status'' data) of
               Inl e \<Rightarrow> Inl e
             | Inr s \<Rightarrow> Inr (s = ''cancel''))
          else Inr False)"

text \<open>
  \<^verbatim>\<open>if (order.depositDetails) order.depositDetails.status = 'cancel'; else
  order.depositDetails = { status: 'cancel' }\<close>. Setting a property on a truthy value that
  is not an object leaves its JSON value as it was. This is the document in memory,
  which the response carries.
\<close>

definition set_status_cancel :: "jsval option \<Rightarrow> jsval option" where
  "set_status_cancel details =
     (if truthy details then
        (case details of
           Some (JObj kvs) \<Rightarrow> Some (JObj (AList.update ''status'' (JStr ''cancel'') kvs))
         | _ \<Rightarrow> details)
      else Some (JObj [(''status'', JStr ''cancel'')]))"

text \<open>
  The handler. \<^verbatim>\<open>order.status\<close> and \<^verbatim>\<open>order.updatedAt\<close> are assigned, so \<^verbatim>\<open>save\<close>
  writes them. When the loaded details are truthy, \<^verbatim>\<open>order.depositDetails.status =
  'cancel'\<close> changes the details in place, which \<^verbatim>\<open>save\<close> does not write: the stored
  details stay as they were loaded, while the response, built from the document in
  memory, shows the new \<^verbatim>\<open>status\<close>. When they are falsy, \<^verbatim>\<open>order.depositDetails =
  { status: 'cancel' }\<close> is an assignment and is written.
\<close>

definition cancel_order :: "env \<Rightarrow> store \<Rightarrow> string \<Rightarrow> response \<times> store \<times> call list" where
  "cancel_order env db oid =
     (if oid = [] then (Failure 400 (JStr ''Order ID diperlukan.''), db, [])
      else case db oid of
        None \<Rightarrow> (Failure 404 (JStr ''Pesanan tidak ditemukan.''), db, [])
      | Some d \<Rightarrow>
          if \<not> truthy_str (atlanticDepositId d) then
            (Failure 400 (JStr ''Deposit ID tidak ditemukan.''), db, [])
          else if status d \<noteq> ''PENDING_PAYMENT'' \<and> status d \<noteq> ''PAYMENT_PROCESSING'' then
            (Failure 400 (JStr (''Pesanan status '' @ status d @ '' tidak bisa dibatalkan.'')),
             db, [])
          else
            (let c = Deposit_cancel (atlanticDepositId d) in
             case fetchAtlanticAPI env c of
               Inl e \<Rightarrow>
                 (Failure 500 (JStr (''Gagal membatalkan pesanan: '' @ message e)), db, [c])
             | Inr cancelResponse \<Rightarrow>
                 (case cancel_ok cancelResponse of
                    Inl e \<Rightarrow>
                      (Failure 500 (JStr (''Gagal membatalkan pesanan: '' @ message e)), db, [c])
                  | Inr ok \<Rightarrow>
                      if ok then
                        (let assigned = d\<lparr>status := ''PAYMENT_CANCELLED'',
                                           updatedAt := now env\<rparr>;
                             d1 = assigned\<lparr>depositDetails :=
                                             set_status_cancel (depositDetails d)\<rparr>;
                             saved = (if truthy (depositDetails d) then assigned else d1)
                         in if \<not> validate d1 then
                              (Failure 500
                                 (JStr ''Gagal membatalkan pesanan: Order validation failed''),
                               db, [c])
                            else (Cancelled d1, db(oid \<mapsto> saved), [c]))
                      else
                        (Failure 500
                           (or_default (get ''message'' cancelResponse)
                              (JStr ''Gagal membatalkan deposit di AtlanticH2H.'')),
                         db, [c]))))"

section \<open>The create-order handler\<close>

text \<open>
  \<open>random_part\<close> is the value of
  \<^verbatim>\<open>Math.random().toString(36).substr(2, 6).toUpperCase()\<close>. A \<^verbatim>\<open>NaN\<close> cannot be cast to
  a Number-typed path, a provider id that is an object or array cannot be cast to a
  String-typed path, and \<^verbatim>\<open>orderId\<close> is unique in the collection: in each of these
  cases \<^verbatim>\<open>newOrder.save()\<close> throws.
\<close>

definition create_order ::
  "env \<Rightarrow> string \<Rightarrow> product list \<Rightarrow> payment_method list \<Rightarrow> store \<Rightarrow> req_body
     \<Rightarrow> response \<times> store \<times> call list" where
  "create_order env random_part productsCache paymentMethodsCache db body =
     (if req_body.productId body = [] \<or> req_body.targetId body = []
         \<or> req_body.paymentMethodCode body = [] \<or> req_body.providerName body = [] then
        (Failure 400 (JStr ''Data tidak lengkap.''), db, [])
      else case find (\<lambda>p. code p = req_body.productId body
                  \<and> (toLowerCase (provider p) = toLowerCase (req_body.providerName body)
                     \<or> toLowerCase (category p) = toLowerCase (req_body.providerName body)))
                productsCache of
        None \<Rightarrow> (Failure 404 (JStr ''Produk tidak ditemukan.''), db, [])
      | Some selectedProduct \<Rightarrow>
      (case find (\<lambda>pm. metode pm = req_body.paymentMethodCode body) paymentMethodsCache of
        None \<Rightarrow> (Failure 404 (JStr ''Metode pembayaran tidak ditemukan.''), db, [])
      | Some selectedPaymentMethod \<Rightarrow>
      (let orderIdInternal = ''ORD-'' @ digits (now env) @ ''-'' @ random_part;
           depositReffId0 = ''DEP-'' @ orderIdInternal;
           baseProductPrice = price selectedProduct;
           paymentMethodFee = or_zero (fee selectedPaymentMethod);
           paymentMethodFeePercent = or_zero (fee_persen selectedPaymentMethod);
           additionalAdminFeePercentGlobal = Fin 2;
           feeFromPaymentMethod =
             jadd paymentMethodFee (jmul baseProductPrice (jdiv100 paymentMethodFeePercent));
           globalAdminFee = jmul baseProductPrice (jdiv100 additionalAdminFeePercentGlobal);
           totalAdminFee0 = jadd feeFromPaymentMethod globalAdminFee;
           totalAmountForDeposit = jadd baseProductPrice totalAdminFee0;
           c = Deposit_create depositReffId0 (ceil totalAmountForDeposit)
                 (type selectedPaymentMethod) (metode selectedPaymentMethod)
       in case fetchAtlanticAPI env c of
            Inl error \<Rightarrow>
              (Failure 500 (JStr (''Gagal memproses pesanan: '' @ message error)), db, [c])
          | Inr depositResponse \<Rightarrow>
          (case response_ok depositResponse of
            Inl error \<Rightarrow>
              (Failure 500 (JStr (''Gagal memproses pesanan: '' @ message error)), db, [c])
          | Inr None \<Rightarrow>
              (Failure 500
                 (or_default (get ''message'' depositResponse) (JStr ''Gagal membuat deposit.'')),
               db, [c])
          | Inr (Some data) \<Rightarrow>
              (let (depositId, bad) =
                     (case castString (get ''id'' data) of
                        Cast v \<Rightarrow> (v, False)
                      | CastError \<Rightarrow> (None, True));
                   newOrder =
                     \<lparr>orderId = orderIdInternal,
                      productId = req_body.productId body,
                      productName = product.name selectedProduct,
                      productPrice = baseProductPrice,
                      providerName = provider selectedProduct,
                      productImgUrl = img_url selectedProduct,
                      targetId = req_body.targetId body,
                      paymentMethodCode = req_body.paymentMethodCode body,
                      paymentMethodName = payment_method.name selectedPaymentMethod,
                      adminFeePaymentMethod = feeFromPaymentMethod,
                      adminFeeGlobal = globalAdminFee,
                      totalAdminFee = totalAdminFee0,
                      totalAmountToPayForDeposit = ceil totalAmountForDeposit,
                      status = ''PENDING_PAYMENT'',
                      atlanticDepositId = depositId,
                      depositReffId = Some depositReffId0,
                      depositDetails = Some data,
                      atlanticTransactionId = None,
                      transactionReffId = None,
                      transactionDetails = None,
                      createdAt = now env,
                      updatedAt = now env\<rparr>
               in if bad \<or> NaN \<in> set [baseProductPrice, feeFromPaymentMethod, globalAdminFee,
                                         totalAdminFee0, ceil totalAmountForDeposit]
                     \<or> \<not> validate newOrder then
                    (Failure 500 (JStr ''Gagal memproses pesanan: Order validation failed''),
                     db, [c])
                  else if db orderIdInternal \<noteq> None then
                    (Failure 500 (JStr ''Gagal memproses pesanan: E11000 duplicate key error''),
                     db, [c])
                  else
                    (Created orderIdInternal data (product.name selectedProduct)
                       (req_body.targetId body) baseProductPrice totalAdminFee0
                       (ceil totalAmountForDeposit),
                     db(orderIdInternal \<mapsto> newOrder), [c]))))))"

section \<open>Repeated polling\<close>

text \<open>
  Polling is client-driven: the client calls the order-status endpoint again and again.
  \<open>poll\<close> runs one request per environment of the list, in order, on the same order id,
  and returns the final store and all provider calls made.
\<close>

fun poll :: "env list \<Rightarrow> store \<Rightarrow> string \<Rightarrow> store \<times> call list" where
  "poll [] db oid = (db, [])"
| "poll (env # envs) db oid =
     (case order_status env db oid of
        (res, db', cs) \<Rightarrow> (case poll envs db' oid of (db'', cs') \<Rightarrow> (db'', cs @ cs')))"

section \<open>The pricing formulas in exact arithmetic\<close>

text \<open>
  The total amount due as the specification writes it, over the rationals with no
  rounding between the operations: \<open>ceil(basePrice + totalAdminFee)\<close> with
  \<open>totalAdminFee = paymentMethodFee + globalAdminFee\<close>,
  \<open>paymentMethodFee = flatFee + basePrice * (feePercent / 100)\<close> and
  \<open>globalAdminFee = basePrice * (2 / 100)\<close>.
\<close>

definition spec_totalAmountDue :: "rat \<Rightarrow> rat \<Rightarrow> rat \<Rightarrow> int" where
  "spec_totalAmountDue basePrice flatFee feePercent =
     \<lceil>basePrice + ((flatFee + basePrice * (feePercent / 100)) + basePrice * (2 / 100))\<rceil>"

section \<open>Example inputs\<close>

text \<open>A stored order awaiting payment, and three providers.\<close>

definition ex_order :: order where
  "ex_order =
     \<lparr>orderId = ''ORD-1'', productId = ''PLN20'', productName = ''Token 20K'',
      productPrice = Fin 20000, providerName = ''PLN'', productImgUrl = None,
      targetId = ''0812'', paymentMethodCode = ''BCA'', paymentMethodName = ''BCA VA'',
      adminFeePaymentMethod = Fin 500, adminFeeGlobal = Fin 400, totalAdminFee = Fin 900,
      totalAmountToPayForDeposit = Fin 20900, status = ''PENDING_PAYMENT'',
      atlanticDepositId = Some ''D1'', depositReffId = Some ''DEP-ORD-1'',
      depositDetails = Some (JObj [(''a'', JNum 1), (''b'', JNum 2)]),
      atlanticTransactionId = None, transactionReffId = None, transactionDetails = None,
      createdAt = 1000, updatedAt = 1000\<rparr>"

text \<open>
  A provider that reports every deposit paid and cancelled on request, accepts every
  transaction as pending and later reports it done.
\<close>

fun ex_paid :: "call \<Rightarrow> js_error + jsval" where
  "ex_paid (Deposit_create reff nominal t m) =
     Inr (JObj [(''status'', JBool True),
                (''data'', JObj [(''id'', JStr ''D1''), (''status'', JStr ''pending'')])])"
| "ex_paid (Deposit_status i) =
     Inr (JObj [(''status'', JBool True),
                (''data'', JObj [(''status'', JStr ''success''), (''b'', JNum 3), (''c'', JNum 4)])])"
| "ex_paid (Deposit_cancel i) =
     Inr (JObj [(''status'', JBool True), (''data'', JObj [(''status'', JStr ''Cancel'')])])"
| "ex_paid (Transaksi_create c reff t) =
     Inr (JObj [(''status'', JBool True),
                (''data'', JObj [(''id'', JStr ''T1''), (''status'', JStr ''pending'')])])"
| "ex_paid (Transaksi_status i) =
     Inr (JObj [(''status'', JBool True),
                (''data'', JObj [(''status'', JStr ''success''), (''sn'', JStr ''123'')])])"

text \<open>The same provider, out of stock: it refuses every transaction creation.\<close>

fun ex_no_stock :: "call \<Rightarrow> js_error + jsval" where
  "ex_no_stock (Transaksi_create c reff t) =
     Inr (JObj [(''status'', JBool False), (''message'', JStr ''Stok kosong'')])"
| "ex_no_stock c = ex_paid c"

text \<open>
  The same provider, answering a transaction creation with a status of its own and no
  transaction id.
\<close>

fun ex_relabelling :: "call \<Rightarrow> js_error + jsval" where
  "ex_relabelling (Transaksi_create c reff t) =
     Inr (JObj [(''status'', JBool True),
                (''data'', JObj [(''status'', JStr ''payment_processing''), (''note'', JStr ''x'')])])"
| "ex_relabelling c = ex_paid c"

text \<open>A provider that reports the deposit expired.\<close>

definition ex_expired :: "call \<Rightarrow> js_error + jsval" where
  "ex_expired c =
     Inr (JObj [(''status'', JBool True), (''data'', JObj [(''status'', JStr ''expired'')])])"

text \<open>
  The same provider, answering a cancel request with the status \<^verbatim>\<open>"false"\<close>, a string.
\<close>

fun ex_status_text :: "call \<Rightarrow> js_error + jsval" where
  "ex_status_text (Deposit_cancel i) =
     Inr (JObj [(''status'', JStr ''false''), (''data'', JObj [(''status'', JStr ''cancel'')])])"
| "ex_status_text c = ex_paid c"

text \<open>A provider that answers every call with a business-level failure.\<close>

definition ex_refusing :: "call \<Rightarrow> js_error + jsval" where
  "ex_refusing c = Inr (JObj [(''status'', JBool False), (''message'', JStr ''Saldo habis'')])"

text \<open>A provider that cannot be reached.\<close>

definition ex_unreachable :: "call \<Rightarrow> js_error + jsval" where
  "ex_unreachable c = Inl (Thrown ''fetch failed'')"

text \<open>A catalog of one product and one payment method, and a request for them.\<close>

definition ex_product :: product where
  "ex_product =
     \<lparr>code = ''PLN10'', provider = ''PLN'', category = ''Token'',
      product.name = ''Token 10K'', img_url = None, price = Fin 10000\<rparr>"

definition ex_method :: payment_method where
  "ex_method =
     \<lparr>metode = ''BCA'', payment_method.name = ''BCA VA'', type = ''va'', fee = Fin 500,
      fee_persen = Fin (3 / 2)\<rparr>"

definition ex_body :: req_body where
  "ex_body =
     \<lparr>req_body.productId = ''PLN10'', req_body.targetId = ''0812'',
      req_body.paymentMethodCode = ''BCA'', req_body.providerName = ''pln''\<rparr>"

section \<open>Auxiliary facts\<close>

subsection \<open>The binary exponent\<close>

lemma bitlen_bounds:
  "0 < n \<Longrightarrow> 1 \<le> bitlen n \<and> 2 ^ nat (bitlen n - 1) \<le> n \<and> n < 2 ^ nat (bitlen n)"
proof (induction n rule: bitlen.induct)
  case (1 n)
  show ?case
  proof (cases "n div 2 = 0")
    case True
    with "1.prems" have "n = 1" by presburger
    then show ?thesis by (simp add: bitlen.simps)
  next
    case False
    with "1.prems" have pos: "0 < n div 2" by presburger
    let ?b = "bitlen (n div 2)"
    from "1.IH" "1.prems" pos have ih: "1 \<le> ?b" "2 ^ nat (?b - 1) \<le> n div 2" "n div 2 < 2 ^ nat ?b"
      by auto
    have b: "bitlen n = 1 + ?b" using "1.prems" by (subst bitlen.simps) simp
    have e1: "nat (bitlen n - 1) = Suc (nat (?b - 1))" using ih(1) b by simp
    have e2: "nat (bitlen n) = Suc (nat ?b)" using ih(1) b by simp
    have "2 * (n div 2) \<le> n" by presburger
    with ih(2) have l: "2 ^ nat (bitlen n - 1) \<le> n" unfolding e1 by simp
    have "n < 2 * (n div 2 + 1)" by presburger
    moreover from ih(3) have "n div 2 + 1 \<le> 2 ^ nat ?b" by simp
    ultimately have u: "n < 2 ^ nat (bitlen n)" unfolding e2 by simp
    from l u b ih(1) show ?thesis by simp
  qed
qed

lemma pow2_nonneg: "0 \<le> e \<Longrightarrow> pow2 e = 2 ^ nat e"
  by (simp add: pow2_def)

lemma pow2_neg: "0 \<le> k \<Longrightarrow> pow2 (- k) = 1 / 2 ^ nat k"
  by (cases "k = 0") (simp_all add: pow2_def)

lemma ilog2_bounds:
  assumes "0 < a"
  shows "pow2 (ilog2 a) \<le> a \<and> a < pow2 (ilog2 a + 1)"
proof (cases "1 \<le> a")
  case True
  let ?n = "\<lfloor>a\<rfloor>"
  from True have n: "0 < ?n" by simp
  from bitlen_bounds[OF n] have b: "1 \<le> bitlen ?n" "2 ^ nat (bitlen ?n - 1) \<le> ?n" "?n < 2 ^ nat (bitlen ?n)"
    by auto
  have il: "ilog2 a = bitlen ?n - 1" using True by (simp add: ilog2_def)
  have "(2::rat) ^ nat (bitlen ?n - 1) = of_int (2 ^ nat (bitlen ?n - 1))" by simp
  also have "\<dots> \<le> of_int ?n" using b(2) by (simp only: of_int_le_iff)
  also have "\<dots> \<le> a" by simp
  finally have lo: "pow2 (ilog2 a) \<le> a" using b(1) by (simp add: il pow2_nonneg)
  have "?n + 1 \<le> 2 ^ nat (bitlen ?n)" using b(3) by simp
  then have "(of_int (?n + 1) :: rat) \<le> of_int (2 ^ nat (bitlen ?n))" by (simp only: of_int_le_iff)
  moreover have "a < of_int (?n + 1)" by linarith
  ultimately have "a < 2 ^ nat (bitlen ?n)" by simp
  then have hi: "a < pow2 (ilog2 a + 1)" using b(1) by (simp add: il pow2_nonneg)
  from lo hi show ?thesis ..
next
  case False
  then have a1: "a < 1" by simp
  let ?m = "\<lceil>1 / a\<rceil>"
  from assms a1 have inv: "1 < 1 / a" by simp
  then have m: "0 < ?m - 1" by (simp add: less_ceiling_iff)
  let ?k = "bitlen (?m - 1)"
  from bitlen_bounds[OF m] have b: "1 \<le> ?k" "2 ^ nat (?k - 1) \<le> ?m - 1" "?m - 1 < 2 ^ nat ?k"
    by auto
  have il: "ilog2 a = - ?k" using False by (simp add: ilog2_def)
  have mk: "?m \<le> 2 ^ nat ?k" using b(3) by simp
  have "1 / a \<le> of_int ?m" by (rule le_of_int_ceiling)
  also have "(of_int ?m :: rat) \<le> of_int (2 ^ nat ?k)" using mk by (simp only: of_int_le_iff)
  also have "(of_int (2 ^ nat ?k) :: rat) = 2 ^ nat ?k" by simp
  finally have "1 / a \<le> 2 ^ nat ?k" .
  with assms have "1 \<le> a * 2 ^ nat ?k" by (simp add: field_simps)
  then have lo: "pow2 (ilog2 a) \<le> a" using b(1) by (simp add: il pow2_neg field_simps)
  have "(2::rat) ^ nat (?k - 1) = of_int (2 ^ nat (?k - 1))" by simp
  also have "\<dots> \<le> of_int (?m - 1)" using b(2) by (simp only: of_int_le_iff)
  also have "(of_int (?m - 1) :: rat) < 1 / a" by linarith
  finally have "(2::rat) ^ nat (?k - 1) < 1 / a" .
  with assms have "a * 2 ^ nat (?k - 1) < 1" by (simp add: field_simps)
  moreover have "ilog2 a + 1 = - (?k - 1)" by (simp add: il)
  moreover have "0 \<le> ?k - 1" using b(1) by simp
  ultimately have hi: "a < pow2 (ilog2 a + 1)"
    by (simp only: pow2_neg) (simp add: field_simps)
  from lo hi show ?thesis ..
qed

subsection \<open>Rounding is to a nearest double\<close>

text \<open>
  The result of \<open>rnd\<close>, when finite, is a multiple of the unit in the last place of its
  argument (with a significand of at most 53 bits), at most half a unit away from it
  and below \<open>2\<^sup>1\<^sup>0\<^sup>2\<^sup>4\<close>.
\<close>

lemma pow2_powi: "pow2 e = 2 powi e"
  by (simp add: pow2_def power_int_def power_inverse inverse_eq_divide power_one_over)

lemma pow2_pos: "0 < pow2 e"
  by (simp add: pow2_powi)

lemma pow2_add: "pow2 (m + n) = pow2 m * pow2 n"
  by (simp add: pow2_powi power_int_add)

lemma pow2_mono: "m \<le> n \<Longrightarrow> pow2 m \<le> pow2 n"
proof -
  assume "m \<le> n"
  then have "1 \<le> pow2 (n - m)" by (simp add: pow2_powi)
  moreover have "pow2 n = pow2 m * pow2 (n - m)" using pow2_add[of m "n - m"] by simp
  ultimately show ?thesis using pow2_pos[of m] by simp
qed

lemma round_half_even_error: "\<bar>of_int (round_half_even q) - q\<bar> \<le> 1 / 2"
proof -
  have "of_int \<lfloor>q\<rfloor> \<le> q" "q < of_int \<lfloor>q\<rfloor> + 1" by linarith+
  then show ?thesis
    by (auto simp: round_half_even_def Let_def abs_le_iff) 
qed

lemma round_half_even_nonneg: "0 \<le> q \<Longrightarrow> 0 \<le> round_half_even q"
  by (auto simp: round_half_even_def Let_def)

lemma rnd_nearest:
  assumes "x \<noteq> 0" and "rnd x = Fin r"
  shows "\<exists>n. r = of_int n * pow2 (max (ilog2 \<bar>x\<bar>) (- 1022) - 52)
             \<and> \<bar>n\<bar> \<le> 2 ^ 53
             \<and> \<bar>r - x\<bar> \<le> pow2 (max (ilog2 \<bar>x\<bar>) (- 1022) - 52) / 2
             \<and> \<bar>r\<bar> < pow2 1024"
proof -
  let ?a = "\<bar>x\<bar>"
  let ?e = "max (ilog2 ?a) (- 1022)"
  let ?u = "pow2 (?e - 52)"
  let ?n = "round_half_even (?a / ?u)"
  have a: "0 < ?a" using assms(1) by simp
  have u: "0 < ?u" by (rule pow2_pos)
  have n0: "0 \<le> ?n" using a u by (intro round_half_even_nonneg) simp
  from assms have small: "\<not> pow2 1024 \<le> of_int ?n * ?u"
    by (auto simp: rnd_def Let_def split: if_splits)
  from assms small have r: "r = (if 0 < x then of_int ?n * ?u else - (of_int ?n * ?u))"
    by (auto simp: rnd_def Let_def split: if_splits)
  have err: "\<bar>of_int ?n * ?u - ?a\<bar> \<le> ?u / 2"
  proof -
    have e1: "\<bar>of_int ?n - ?a / ?u\<bar> * ?u \<le> (1 / 2) * ?u"
      using round_half_even_error[of "?a / ?u"] u by (intro mult_right_mono) simp_all
    have "\<bar>of_int ?n - ?a / ?u\<bar> * ?u = \<bar>(of_int ?n - ?a / ?u) * ?u\<bar>"
      using u by (simp only: abs_mult abs_of_pos)
    also have "(of_int ?n - ?a / ?u) * ?u = of_int ?n * ?u - ?a"
      using u by (simp add: left_diff_distrib)
    finally have e2: "\<bar>of_int ?n - ?a / ?u\<bar> * ?u = \<bar>of_int ?n * ?u - ?a\<bar>" .
    have "\<bar>of_int ?n * ?u - ?a\<bar> \<le> (1 / 2) * ?u" using e1 unfolding e2 .
    also have "(1 / 2) * ?u = ?u / 2" by simp
    finally show ?thesis .
  qed
  have "?a < pow2 (ilog2 ?a + 1)" by (rule ilog2_bounds[OF a, THEN conjunct2])
  also have "\<dots> \<le> pow2 (?e + 1)" by (rule pow2_mono) simp
  also have "?e + 1 = 53 + (?e - 52)" by simp
  also have "pow2 (53 + (?e - 52)) = pow2 53 * ?u" by (rule pow2_add)
  finally have lt: "?a < pow2 53 * ?u" .
  have "?a / ?u < pow2 53"
    using lt u by (simp only: pos_divide_less_eq)
  moreover have "of_int ?n - ?a / ?u \<le> 1 / 2"
    using round_half_even_error[of "?a / ?u"] by (simp only: abs_le_iff)
  ultimately have "(of_int ?n :: rat) < pow2 53 + 1 / 2" by linarith
  moreover have p53: "pow2 53 = of_int (2 ^ 53)" by (simp add: pow2_def)
  ultimately have nlt: "(of_int ?n :: rat) < of_int (2 ^ 53) + 1 / 2" by (simp only:)
  have "?n < 2 ^ 53 + 1"
  proof (rule ccontr)
    assume "\<not> ?n < 2 ^ 53 + 1"
    then have "2 ^ 53 + 1 \<le> ?n" by simp
    then have "(of_int (2 ^ 53 + 1) :: rat) \<le> of_int ?n" by (simp only: of_int_le_iff)
    then have "(of_int (2 ^ 53) :: rat) + 1 \<le> of_int ?n" by (simp only: of_int_add of_int_1)
    with nlt show False by linarith
  qed
  with n0 have nb: "\<bar>?n\<bar> \<le> 2 ^ 53" by simp
  show ?thesis
  proof (cases "0 < x")
    case True
    with r err small u n0 nb show ?thesis
      by (intro exI[of _ ?n]) (auto simp: abs_mult not_le)
  next
    case False
    with assms(1) have neg: "x < 0" by simp
    have "\<bar>- (of_int ?n * ?u) - x\<bar> = \<bar>of_int ?n * ?u - ?a\<bar>" using neg by simp
    with r err small u n0 nb False show ?thesis
      by (intro exI[of _ "- ?n"]) (auto simp: abs_mult not_le)
  qed
qed

subsection \<open>Evaluating the number model on numerals\<close>

lemma floor_rat_numeral_div: "\<lfloor>numeral a / numeral b :: rat\<rfloor> = numeral a div numeral b"
  by (metis floor_divide_of_int_eq of_int_numeral)

lemma ceiling_rat_numeral_div: "\<lceil>numeral a / numeral b :: rat\<rceil> = - (- numeral a div numeral b)"
  by (metis ceiling_divide_eq_div of_int_numeral)

lemma bitlen_0: "bitlen 0 = 0" by (simp add: bitlen.simps)
lemma bitlen_1: "bitlen 1 = 1" by (simp add: bitlen.simps)
lemma bitlen_Bit0: "bitlen (numeral (Num.Bit0 n)) = 1 + bitlen (numeral n)"
  by (subst bitlen.simps) simp
lemma bitlen_Bit1: "bitlen (numeral (Num.Bit1 n)) = 1 + bitlen (numeral n)"
  by (subst bitlen.simps) simp

lemmas rnd_eval = rnd_def ilog2_def pow2_def round_half_even_def Let_def
  bitlen_0 bitlen_1 bitlen_Bit0 bitlen_Bit1
  floor_rat_numeral_div ceiling_rat_numeral_div

subsection \<open>The two pricing computations of the examples, step by step\<close>

lemma ex_pct: "jdiv100 (Fin (3 / 2)) = Fin (1080863910568919 / 72057594037927936)"
  by (simp add: rnd_eval)

lemma ex_pfee: "jmul (Fin 10000) (Fin (1080863910568919 / 72057594037927936)) = Fin 150"
  by (simp add: rnd_eval)

lemma ex_fee: "jadd (Fin 500) (Fin 150) = Fin 650"
  by (simp add: rnd_eval)

lemma ex_gpct: "jdiv100 (Fin 2) = Fin (5764607523034235 / 288230376151711744)"
  by (simp add: rnd_eval)

lemma ex_global: "jmul (Fin 10000) (Fin (5764607523034235 / 288230376151711744)) = Fin 200"
  by (simp add: rnd_eval)

lemma ex_admin: "jadd (Fin 650) (Fin 200) = Fin 850"
  by (simp add: rnd_eval)

lemma ex_total: "jadd (Fin 10000) (Fin 850) = Fin 10850"
  by (simp add: rnd_eval)

lemma ex_ceil: "ceil (Fin 10850) = Fin 10850"
  by (simp add: rnd_eval)

lemma cx_pct: "jdiv100 (Fin 158) = Fin (889460926405673 / 562949953421312)"
  by (simp add: rnd_eval)

lemma cx_pfee: "jmul (Fin 45) (Fin (889460926405673 / 562949953421312)) = Fin (5003217711031911 / 70368744177664)"
  by (simp add: rnd_eval)

lemma cx_fee: "jadd (Fin 0) (Fin (5003217711031911 / 70368744177664)) = Fin (5003217711031911 / 70368744177664)"
  by (simp add: rnd_eval)

lemma cx_global: "jmul (Fin 45) (Fin (5764607523034235 / 288230376151711744)) = Fin (8106479329266893 / 9007199254740992)"
  by (simp add: rnd_eval)

lemma cx_admin: "jadd (Fin (5003217711031911 / 70368744177664)) (Fin (8106479329266893 / 9007199254740992)) = Fin (5066549580791809 / 70368744177664)"
  by (simp add: rnd_eval)

lemma cx_total: "jadd (Fin 45) (Fin (5066549580791809 / 70368744177664)) = Fin (8233143068786689 / 70368744177664)"
  by (simp add: rnd_eval)

lemma cx_ceil: "ceil (Fin (8233143068786689 / 70368744177664)) = Fin 118"
  by (simp add: rnd_eval)


lemmas ex_nums = ex_pct ex_pfee ex_fee ex_gpct ex_global ex_admin ex_total ex_ceil
lemmas cx_nums = cx_pct cx_pfee cx_fee ex_gpct cx_global cx_admin cx_total cx_ceil

subsection \<open>Strings of the examples\<close>

lemma digits_1000: "digits 1000 = ''1000''"
  by code_simp

lemma lower_pln: "toLowerCase ''PLN'' = ''pln''" "toLowerCase ''pln'' = ''pln''"
  by (simp_all add: toLowerCase_def toLowerChar_def)

lemma upper_examples:
  "toUpperCase ''success'' = ''SUCCESS''" "toUpperCase ''expired'' = ''EXPIRED''"
  "toUpperCase ''pending'' = ''PENDING''"
  by (simp_all add: toUpperCase_def toUpperChar_def)

lemma upper_payment_processing: "toUpperCase ''payment_processing'' = ''PAYMENT_PROCESSING''"
  by (simp add: toUpperCase_def toUpperChar_def)

lemma lower_cancel: "toLowerCase ''Cancel'' = ''cancel''"
  by (simp add: toLowerCase_def toLowerChar_def)

subsection \<open>Object spread\<close>

lemma map_of_assign_props:
  "map_of (assign_props target src) = map_of target ++ map_of (rev src)"
proof (induction src arbitrary: target)
  case Nil
  then show ?case by (simp add: assign_props_def)
next
  case (Cons kv src)
  obtain k v where kv: "kv = (k, v)" by (cases kv)
  have "assign_props target (kv # src) = assign_props (AList.update k v target) src"
    by (simp add: assign_props_def kv)
  then show ?case
    using Cons.IH[of "AList.update k v target"]
    by (simp add: kv update_conv' fun_eq_iff map_add_def split: option.splits)
qed

lemma map_of_rev_distinct: "distinct (map fst xs) \<Longrightarrow> map_of (rev xs) = map_of xs"
  by (rule map_of_inject_set[THEN iffD2]) (auto simp: rev_map[symmetric])

lemma get_spread:
  assumes "distinct (map fst a)" and "distinct (map fst b)"
  shows "get k (spread (Some (JObj a)) (Some (JObj b))) =
           (case map_of b k of Some v \<Rightarrow> Some v | None \<Rightarrow> map_of a k)"
  using assms
  by (simp add: spread_def map_of_assign_props map_of_rev_distinct map_add_def)

lemma assign_props_Nil: "assign_props target [] = target"
  by (simp add: assign_props_def)

lemma get_spread_absent:
  assumes "distinct (map fst b)"
  shows "get k (spread None (Some (JObj b))) = map_of b k"
  using assms
  by (simp add: spread_def map_of_assign_props map_of_rev_distinct assign_props_Nil)

subsection \<open>Transaction creation and the two polls\<close>

lemma try_create_transaction_deposit_details:
  "depositDetails (fst (try_create_transaction suffix env reff d)) = depositDetails d"
  by (auto simp: try_create_transaction_def tx_error_def Let_def
           split: sum.splits option.splits cast.splits)

lemma try_create_transaction_replaces:
  assumes "fetchAtlanticAPI env (Transaksi_create (productId d) reff (targetId d)) = Inr c"
    and "response_ok c = Inr (Some data)"
    and "\<not> truthy (get ''status'' data) \<or> (\<exists>t. get ''status'' data = Some (JStr t))"
  shows "transactionDetails (fst (try_create_transaction suffix env reff d)) = Some data"
  using assms
  by (auto simp: try_create_transaction_def Let_def split: cast.splits)

lemma deposit_poll_merges:
  assumes "oid \<noteq> []" and "db oid = Some d"
    and "order_status env db oid = (Order_data d', db', cs)"
    and "status d \<in> set [''PENDING_PAYMENT'', ''PAYMENT_PROCESSING'']"
    and "fetchAtlanticAPI env (Deposit_status (atlanticDepositId d)) = Inr r"
    and "response_ok r = Inr (Some data)"
  shows "depositDetails d' = Some (spread (depositDetails d) (Some data)) \<and> db' = db(oid \<mapsto> d')"
proof (cases "call_case_method ''depositStatusResponse.data.status'' ''toUpperCase''
                toUpperCase (get ''status'' data)")
  case (Inl e)
  with assms show ?thesis
    by (auto simp: order_status_def reconcile_def reconcile_deposit_def)
next
  case (Inr u)
  show ?thesis
  proof (cases "u = ''SUCCESS''")
    case True
    let ?d2 = "d\<lparr>updatedAt := now env,
                   depositDetails := Some (spread (depositDetails d) (Some data)),
                   status := ''PAYMENT_SUCCESSFUL_PROCESSING_ORDER'',
                   transactionReffId := Some (''TRX-'' @ orderId d)\<rparr>"
    obtain d3 bad cs3 where t: "try_create_transaction [] env (''TRX-'' @ orderId d) ?d2 = (d3, bad, cs3)"
      by (cases "try_create_transaction [] env (''TRX-'' @ orderId d) ?d2") auto
    have "depositDetails d3 = depositDetails ?d2"
      using try_create_transaction_deposit_details[of "[]" env "''TRX-'' @ orderId d" ?d2] t by simp
    moreover have "reconcile env d = (Saving d3 bad, Deposit_status (atlanticDepositId d) # cs3)"
      using assms(4-6) Inr True t
      by (auto simp: reconcile_def reconcile_deposit_def Let_def)
    ultimately show ?thesis
      using assms(1-3) by (auto simp: order_status_def split: if_splits)
  next
    case False
    with assms Inr show ?thesis
      by (auto simp: order_status_def reconcile_def reconcile_deposit_def Let_def split: if_splits)
  qed
qed

lemma transaction_poll_merges:
  assumes "oid \<noteq> []" and "db oid = Some d"
    and "order_status env db oid = (Order_data d', db', cs)"
    and "status d \<in> set [''ORDER_PROCESSING'', ''PAYMENT_SUCCESSFUL_PROCESSING_ORDER'',
                          ''TRANSACTION_CREATION_FAILED'']"
    and "truthy_str (atlanticTransactionId d)"
    and "fetchAtlanticAPI env (Transaksi_status (atlanticTransactionId d)) = Inr r"
    and "response_ok r = Inr (Some data)"
  shows "transactionDetails d' = Some (spread (transactionDetails d) (Some data))
         \<and> db' = db(oid \<mapsto> d')"
  using assms
  by (cases "call_case_method ''transactionStatusResponse.data.status'' ''toUpperCase''
               toUpperCase (get ''status'' data)")
     (auto simp: order_status_def reconcile_def reconcile_transaction_def Let_def split: if_splits)

lemma creation_failed_without_id_is_left_alone:
  assumes "oid \<noteq> []" and "db oid = Some d"
    and "status d = ''TRANSACTION_CREATION_FAILED''"
    and "\<not> truthy_str (atlanticTransactionId d)"
  shows "order_status env db oid = (Order_data d, db, [])"
  using assms
  by (auto simp: order_status_def reconcile_def reconcile_transaction_def)

lemma refused_deposit_poll_changes_nothing:
  assumes "oid \<noteq> []" and "db oid = Some d"
    and "status d = ''PENDING_PAYMENT'' \<or> status d = ''PAYMENT_PROCESSING''"
    and "fetchAtlanticAPI env (Deposit_status (atlanticDepositId d)) = Inr r"
    and "response_ok r = Inr None"
  shows "order_status env db oid = (Order_data d, db, [Deposit_status (atlanticDepositId d)])"
  using assms
  by (auto simp: order_status_def reconcile_def reconcile_deposit_def)

lemma refused_transaction_poll_updates:
  assumes "oid \<noteq> []" and "db oid = Some d" and "validate d"
    and "status d \<in> set [''ORDER_PROCESSING'', ''PAYMENT_SUCCESSFUL_PROCESSING_ORDER'',
                          ''TRANSACTION_CREATION_FAILED'']"
    and "truthy_str (atlanticTransactionId d)"
    and "fetchAtlanticAPI env (Transaksi_status (atlanticTransactionId d)) = Inr r"
    and "response_ok r = Inr None"
  shows "order_status env db oid
           = (Order_data (d\<lparr>updatedAt := now env\<rparr>), db(oid \<mapsto> d\<lparr>updatedAt := now env\<rparr>),
              [Transaksi_status (atlanticTransactionId d)])"
  using assms
  by (auto simp: order_status_def reconcile_def reconcile_transaction_def validate_def)

text \<open>
  An order can come to a transaction creation with transaction details already stored:
  a first creation answered with a status of the provider's own and no transaction id
  leaves the order in that status (here \<^verbatim>\<open>PAYMENT_PROCESSING\<close>) with the answer as its
  details, and the next request creates a transaction again; the details it stores are
  the second answer alone.
\<close>

lemma stored_details_before_creation_are_reachable:
  "poll [\<lparr>fetchAtlanticAPI = ex_relabelling, now = 2000\<rparr>, \<lparr>fetchAtlanticAPI = ex_paid, now = 3000\<rparr>]
     [''ORD-1'' \<mapsto> ex_order] ''ORD-1''
   = ([''ORD-1'' \<mapsto>
        ex_order\<lparr>updatedAt := 3000,
           depositDetails := Some (JObj [(''a'', JNum 1), (''b'', JNum 3),
                                          (''status'', JStr ''success''), (''c'', JNum 4)]),
           status := ''ORDER_PROCESSING'',
           transactionReffId := Some ''TRX-ORD-1'',
           atlanticTransactionId := Some ''T1'',
           transactionDetails := Some (JObj [(''id'', JStr ''T1''), (''status'', JStr ''pending'')])\<rparr>],
      [Deposit_status (Some ''D1''), Transaksi_create ''PLN20'' ''TRX-ORD-1'' ''0812'',
       Deposit_status (Some ''D1''), Transaksi_create ''PLN20'' ''TRX-ORD-1'' ''0812''])
   \<and> order_status \<lparr>fetchAtlanticAPI = ex_relabelling, now = 2000\<rparr> [''ORD-1'' \<mapsto> ex_order] ''ORD-1''
   = (Order_data
        (ex_order\<lparr>updatedAt := 2000,
           depositDetails := Some (JObj [(''a'', JNum 1), (''b'', JNum 3),
                                          (''status'', JStr ''success''), (''c'', JNum 4)]),
           status := ''PAYMENT_PROCESSING'',
           transactionReffId := Some ''TRX-ORD-1'',
           transactionDetails := Some (JObj [(''status'', JStr ''payment_processing''),
                                              (''note'', JStr ''x'')])\<rparr>),
      [''ORD-1'' \<mapsto>
        ex_order\<lparr>updatedAt := 2000,
           depositDetails := Some (JObj [(''a'', JNum 1), (''b'', JNum 3),
                                          (''status'', JStr ''success''), (''c'', JNum 4)]),
           status := ''PAYMENT_PROCESSING'',
           transactionReffId := Some ''TRX-ORD-1'',
           transactionDetails := Some (JObj [(''status'', JStr ''payment_processing''),
                                              (''note'', JStr ''x'')])\<rparr>],
      [Deposit_status (Some ''D1''), Transaksi_create ''PLN20'' ''TRX-ORD-1'' ''0812''])"
  by (simp add: order_status_def reconcile_def reconcile_deposit_def
        try_create_transaction_def ex_order_def response_ok_def validate_def spread_def
        assign_props_def upper_examples upper_payment_processing Let_def)

subsection \<open>The create-order handler on its success path\<close>

lemma create_order_example:
  "create_order \<lparr>fetchAtlanticAPI = ex_paid, now = 1000\<rparr> ''K3J9QZ'' [ex_product] [ex_method]
     Map.empty ex_body
   = (Created ''ORD-1000-K3J9QZ'' (JObj [(''id'', JStr ''D1''), (''status'', JStr ''pending'')])
        ''Token 10K'' ''0812'' (Fin 10000) (Fin 850) (Fin 10850),
      [''ORD-1000-K3J9QZ'' \<mapsto>
         \<lparr>orderId = ''ORD-1000-K3J9QZ'', productId = ''PLN10'', productName = ''Token 10K'',
          productPrice = Fin 10000, providerName = ''PLN'', productImgUrl = None,
          targetId = ''0812'', paymentMethodCode = ''BCA'', paymentMethodName = ''BCA VA'',
          adminFeePaymentMethod = Fin 650, adminFeeGlobal = Fin 200, totalAdminFee = Fin 850,
          totalAmountToPayForDeposit = Fin 10850, status = ''PENDING_PAYMENT'',
          atlanticDepositId = Some ''D1'', depositReffId = Some ''DEP-ORD-1000-K3J9QZ'',
          depositDetails = Some (JObj [(''id'', JStr ''D1''), (''status'', JStr ''pending'')]),
          atlanticTransactionId = None, transactionReffId = None, transactionDetails = None,
          createdAt = 1000, updatedAt = 1000\<rparr>],
      [Deposit_create ''DEP-ORD-1000-K3J9QZ'' (Fin 10850) ''va'' ''BCA''])"
  by (simp add: create_order_def ex_product_def ex_method_def ex_body_def lower_pln digits_1000
        or_zero_def ex_nums response_ok_def validate_def Let_def
        del: jadd.simps jmul.simps jdiv100.simps ceil.simps)

lemma create_order_created:
  assumes run: "create_order env rp pc pmc db body
                  = (Created oid data pname tid base tfee due, db', cs)"
  shows "\<exists>p pm d.
           find (\<lambda>p. code p = req_body.productId body
                  \<and> (toLowerCase (provider p) = toLowerCase (req_body.providerName body)
                     \<or> toLowerCase (category p) = toLowerCase (req_body.providerName body))) pc
             = Some p
           \<and> find (\<lambda>pm. metode pm = req_body.paymentMethodCode body) pmc = Some pm
           \<and> db' = db(oid \<mapsto> d)
           \<and> productPrice d = price p \<and> base = price p
           \<and> adminFeePaymentMethod d
               = jadd (or_zero (fee pm)) (jmul (price p) (jdiv100 (or_zero (fee_persen pm))))
           \<and> adminFeeGlobal d = jmul (price p) (jdiv100 (Fin 2))
           \<and> totalAdminFee d = jadd (adminFeePaymentMethod d) (adminFeeGlobal d)
           \<and> tfee = totalAdminFee d
           \<and> totalAmountToPayForDeposit d = ceil (jadd (price p) (totalAdminFee d))
           \<and> due = totalAmountToPayForDeposit d
           \<and> cs = [Deposit_create (''DEP-'' @ oid) due (type pm) (metode pm)]"
  using run unfolding create_order_def Let_def
  by (auto split: if_splits option.splits sum.splits cast.splits
           simp del: jadd.simps jmul.simps jdiv100.simps ceil.simps)

section \<open>Reconciliation of orders the state machine does not advance\<close>

text \<open>
  C5. For every stored order whose status is one of \<^verbatim>\<open>ORDER_COMPLETED\<close>,
  \<^verbatim>\<open>ORDER_FAILED\<close>, \<^verbatim>\<open>PAYMENT_EXPIRED\<close>, \<^verbatim>\<open>PAYMENT_FAILED\<close>, \<^verbatim>\<open>PAYMENT_CANCEL\<close>,
  \<^verbatim>\<open>PAYMENT_CANCELLED\<close>, the order-status handler makes no provider call, leaves the
  store as it is and returns the stored order unchanged.
\<close>

theorem terminal_order_is_returned_as_is:
  assumes "oid \<noteq> []" and "db oid = Some d"
    and "status d \<in> set [''ORDER_COMPLETED'', ''ORDER_FAILED'', ''PAYMENT_EXPIRED'',
                          ''PAYMENT_FAILED'', ''PAYMENT_CANCEL'', ''PAYMENT_CANCELLED'']"
  shows "order_status env db oid = (Order_data d, db, [])"
  using assms by (auto simp: order_status_def reconcile_def)

theorem terminal_order_is_returned_as_is_witness:
  "''ORD-1'' \<noteq> []
   \<and> [''ORD-1'' \<mapsto> ex_order\<lparr>status := ''ORDER_COMPLETED''\<rparr>] ''ORD-1''
       = Some (ex_order\<lparr>status := ''ORDER_COMPLETED''\<rparr>)
   \<and> status (ex_order\<lparr>status := ''ORDER_COMPLETED''\<rparr>)
       \<in> set [''ORDER_COMPLETED'', ''ORDER_FAILED'', ''PAYMENT_EXPIRED'',
                ''PAYMENT_FAILED'', ''PAYMENT_CANCEL'', ''PAYMENT_CANCELLED'']
   \<and> order_status \<lparr>fetchAtlanticAPI = ex_paid, now = 2000\<rparr>
         [''ORD-1'' \<mapsto> ex_order\<lparr>status := ''ORDER_COMPLETED''\<rparr>] ''ORD-1''
       = (Order_data (ex_order\<lparr>status := ''ORDER_COMPLETED''\<rparr>),
          [''ORD-1'' \<mapsto> ex_order\<lparr>status := ''ORDER_COMPLETED''\<rparr>], [])"
  using terminal_order_is_returned_as_is
          [of "''ORD-1''" "[''ORD-1'' \<mapsto> ex_order\<lparr>status := ''ORDER_COMPLETED''\<rparr>]"
              "ex_order\<lparr>status := ''ORDER_COMPLETED''\<rparr>"
              "\<lparr>fetchAtlanticAPI = ex_paid, now = 2000\<rparr>"]
  by simp

text \<open>
  C10. For every stored order whose status lies outside \<^verbatim>\<open>PENDING_PAYMENT\<close>,
  \<^verbatim>\<open>PAYMENT_PROCESSING\<close>, \<^verbatim>\<open>ORDER_PROCESSING\<close>, \<^verbatim>\<open>PAYMENT_SUCCESSFUL_PROCESSING_ORDER\<close>
  and \<^verbatim>\<open>TRANSACTION_CREATION_FAILED\<close> (so also \<^verbatim>\<open>TRANSACTION_CREATION_ERROR\<close> and a
  provider status stored verbatim such as \<^verbatim>\<open>SUCCESS\<close>), the order-status handler makes
  no provider call and persists no change; and no sequence of later order-status
  requests, whatever the provider answers, calls the provider or changes the store.
\<close>

theorem unhandled_status_is_never_advanced:
  assumes "oid \<noteq> []" and "db oid = Some d"
    and "status d \<notin> set [''PENDING_PAYMENT'', ''PAYMENT_PROCESSING'', ''ORDER_PROCESSING'',
             ''PAYMENT_SUCCESSFUL_PROCESSING_ORDER'', ''TRANSACTION_CREATION_FAILED'']"
  shows "order_status env db oid = (Order_data d, db, []) \<and> poll envs db oid = (db, [])"
proof -
  have one: "order_status e db oid = (Order_data d, db, [])" for e
    using assms by (auto simp: order_status_def reconcile_def)
  have "poll envs db oid = (db, [])"
    by (induction envs) (simp_all add: one)
  with one show ?thesis by simp
qed

theorem unhandled_status_is_never_advanced_witness:
  "order_status \<lparr>fetchAtlanticAPI = ex_paid, now = 2000\<rparr>
       [''ORD-1'' \<mapsto> ex_order\<lparr>status := ''TRANSACTION_CREATION_ERROR''\<rparr>] ''ORD-1''
     = (Order_data (ex_order\<lparr>status := ''TRANSACTION_CREATION_ERROR''\<rparr>),
        [''ORD-1'' \<mapsto> ex_order\<lparr>status := ''TRANSACTION_CREATION_ERROR''\<rparr>], [])
   \<and> poll [\<lparr>fetchAtlanticAPI = ex_paid, now = 2000\<rparr>,
            \<lparr>fetchAtlanticAPI = ex_expired, now = 3000\<rparr>]
       [''ORD-1'' \<mapsto> ex_order\<lparr>status := ''TRANSACTION_CREATION_ERROR''\<rparr>] ''ORD-1''
     = ([''ORD-1'' \<mapsto> ex_order\<lparr>status := ''TRANSACTION_CREATION_ERROR''\<rparr>], [])
   \<and> poll [\<lparr>fetchAtlanticAPI = ex_paid, now = 2000\<rparr>,
            \<lparr>fetchAtlanticAPI = ex_paid, now = 3000\<rparr>]
       [''ORD-1'' \<mapsto> ex_order\<lparr>status := ''SUCCESS''\<rparr>] ''ORD-1''
     = ([''ORD-1'' \<mapsto> ex_order\<lparr>status := ''SUCCESS''\<rparr>], [])"
proof -
  have "order_status \<lparr>fetchAtlanticAPI = ex_paid, now = 2000\<rparr>
       [''ORD-1'' \<mapsto> ex_order\<lparr>status := ''TRANSACTION_CREATION_ERROR''\<rparr>] ''ORD-1''
     = (Order_data (ex_order\<lparr>status := ''TRANSACTION_CREATION_ERROR''\<rparr>),
        [''ORD-1'' \<mapsto> ex_order\<lparr>status := ''TRANSACTION_CREATION_ERROR''\<rparr>], [])
   \<and> poll [\<lparr>fetchAtlanticAPI = ex_paid, now = 2000\<rparr>,
            \<lparr>fetchAtlanticAPI = ex_expired, now = 3000\<rparr>]
       [''ORD-1'' \<mapsto> ex_order\<lparr>status := ''TRANSACTION_CREATION_ERROR''\<rparr>] ''ORD-1''
     = ([''ORD-1'' \<mapsto> ex_order\<lparr>status := ''TRANSACTION_CREATION_ERROR''\<rparr>], [])"
    by (rule unhandled_status_is_never_advanced) simp_all
  moreover
  have "order_status \<lparr>fetchAtlanticAPI = ex_paid, now = 2000\<rparr>
       [''ORD-1'' \<mapsto> ex_order\<lparr>status := ''SUCCESS''\<rparr>] ''ORD-1''
     = (Order_data (ex_order\<lparr>status := ''SUCCESS''\<rparr>),
        [''ORD-1'' \<mapsto> ex_order\<lparr>status := ''SUCCESS''\<rparr>], [])
   \<and> poll [\<lparr>fetchAtlanticAPI = ex_paid, now = 2000\<rparr>,
            \<lparr>fetchAtlanticAPI = ex_paid, now = 3000\<rparr>]
       [''ORD-1'' \<mapsto> ex_order\<lparr>status := ''SUCCESS''\<rparr>] ''ORD-1''
     = ([''ORD-1'' \<mapsto> ex_order\<lparr>status := ''SUCCESS''\<rparr>], [])"
    by (rule unhandled_status_is_never_advanced) simp_all
  ultimately show ?thesis by blast
qed

text \<open>
  C7. If the deposit-status or transaction-status fetch throws, the error is not caught
  inside the reconciliation: it reaches the handler's outer \<^verbatim>\<open>catch\<close> with the loaded
  document not yet mutated, the handler answers with a server error (status 500), and
  the stored order is unchanged.
\<close>

theorem status_fetch_error_leaves_order_unchanged:
  assumes "oid \<noteq> []" and "db oid = Some d"
    and "status d \<in> set [''PENDING_PAYMENT'', ''PAYMENT_PROCESSING''] \<and>
           c = Deposit_status (atlanticDepositId d)
         \<or> status d \<in> set [''ORDER_PROCESSING'', ''PAYMENT_SUCCESSFUL_PROCESSING_ORDER'',
                ''TRANSACTION_CREATION_FAILED''] \<and> truthy_str (atlanticTransactionId d) \<and>
           c = Transaksi_status (atlanticTransactionId d)"
    and "fetchAtlanticAPI env c = Inl e"
  shows "reconcile env d = (Threw e d, [c]) \<and>
         order_status env db oid =
           (Failure 500 (JStr (''Internal server error: '' @ message e)), db, [c])"
  using assms
  by (auto simp: order_status_def reconcile_def reconcile_deposit_def reconcile_transaction_def)

theorem status_fetch_error_leaves_order_unchanged_witness:
  "order_status \<lparr>fetchAtlanticAPI = ex_unreachable, now = 2000\<rparr> [''ORD-1'' \<mapsto> ex_order] ''ORD-1''
     = (Failure 500 (JStr ''Internal server error: fetch failed''), [''ORD-1'' \<mapsto> ex_order],
        [Deposit_status (Some ''D1'')])
   \<and> order_status \<lparr>fetchAtlanticAPI = ex_unreachable, now = 2000\<rparr>
        [''ORD-1'' \<mapsto> ex_order\<lparr>status := ''ORDER_PROCESSING'', atlanticTransactionId := Some ''T1''\<rparr>]
        ''ORD-1''
     = (Failure 500 (JStr ''Internal server error: fetch failed''),
        [''ORD-1'' \<mapsto> ex_order\<lparr>status := ''ORDER_PROCESSING'', atlanticTransactionId := Some ''T1''\<rparr>],
        [Transaksi_status (Some ''T1'')])"
  using status_fetch_error_leaves_order_unchanged
          [of "''ORD-1''" "[''ORD-1'' \<mapsto> ex_order]" ex_order "Deposit_status (Some ''D1'')"
              "\<lparr>fetchAtlanticAPI = ex_unreachable, now = 2000\<rparr>" "Thrown ''fetch failed''"]
        status_fetch_error_leaves_order_unchanged
          [of "''ORD-1''"
              "[''ORD-1'' \<mapsto> ex_order\<lparr>status := ''ORDER_PROCESSING'',
                                        atlanticTransactionId := Some ''T1''\<rparr>]"
              "ex_order\<lparr>status := ''ORDER_PROCESSING'', atlanticTransactionId := Some ''T1''\<rparr>"
              "Transaksi_status (Some ''T1'')"
              "\<lparr>fetchAtlanticAPI = ex_unreachable, now = 2000\<rparr>" "Thrown ''fetch failed''"]
  by (simp add: ex_order_def ex_unreachable_def)

text \<open>
  C4. The specification has a stored order in \<^verbatim>\<open>TRANSACTION_CREATION_FAILED\<close> with no
  provider transaction id retried. The handler admits the status to the transaction
  branch, but the retry inside that branch asks for
  \<^verbatim>\<open>PAYMENT_SUCCESSFUL_PROCESSING_ORDER\<close>: for such an order no provider call is made
  and nothing changes (for every such order, by
  \<open>creation_failed_without_id_is_left_alone\<close>). Here on the example order: a first
  request finds the deposit paid and the provider out of stock, and stores
  \<^verbatim>\<open>TRANSACTION_CREATION_FAILED\<close>; a second request, with the provider now accepting
  transactions, calls nothing and returns the order as stored.
\<close>

theorem failed_creation_is_not_retried:
  "order_status \<lparr>fetchAtlanticAPI = ex_no_stock, now = 2000\<rparr> [''ORD-1'' \<mapsto> ex_order] ''ORD-1''
     = (Order_data
          (ex_order\<lparr>updatedAt := 2000,
             depositDetails := Some (JObj [(''a'', JNum 1), (''b'', JNum 3),
                                            (''status'', JStr ''success''), (''c'', JNum 4)]),
             status := ''TRANSACTION_CREATION_FAILED'',
             transactionReffId := Some ''TRX-ORD-1'',
             transactionDetails := Some (JObj [(''error'', JStr ''Stok kosong'')])\<rparr>),
        [''ORD-1'' \<mapsto>
          ex_order\<lparr>updatedAt := 2000,
             depositDetails := Some (JObj [(''a'', JNum 1), (''b'', JNum 3),
                                            (''status'', JStr ''success''), (''c'', JNum 4)]),
             status := ''TRANSACTION_CREATION_FAILED'',
             transactionReffId := Some ''TRX-ORD-1'',
             transactionDetails := Some (JObj [(''error'', JStr ''Stok kosong'')])\<rparr>],
        [Deposit_status (Some ''D1''), Transaksi_create ''PLN20'' ''TRX-ORD-1'' ''0812''])
   \<and> order_status \<lparr>fetchAtlanticAPI = ex_paid, now = 3000\<rparr>
        [''ORD-1'' \<mapsto>
          ex_order\<lparr>updatedAt := 2000,
             depositDetails := Some (JObj [(''a'', JNum 1), (''b'', JNum 3),
                                            (''status'', JStr ''success''), (''c'', JNum 4)]),
             status := ''TRANSACTION_CREATION_FAILED'',
             transactionReffId := Some ''TRX-ORD-1'',
             transactionDetails := Some (JObj [(''error'', JStr ''Stok kosong'')])\<rparr>]
        ''ORD-1''
     = (Order_data
          (ex_order\<lparr>updatedAt := 2000,
             depositDetails := Some (JObj [(''a'', JNum 1), (''b'', JNum 3),
                                            (''status'', JStr ''success''), (''c'', JNum 4)]),
             status := ''TRANSACTION_CREATION_FAILED'',
             transactionReffId := Some ''TRX-ORD-1'',
             transactionDetails := Some (JObj [(''error'', JStr ''Stok kosong'')])\<rparr>),
        [''ORD-1'' \<mapsto>
          ex_order\<lparr>updatedAt := 2000,
             depositDetails := Some (JObj [(''a'', JNum 1), (''b'', JNum 3),
                                            (''status'', JStr ''success''), (''c'', JNum 4)]),
             status := ''TRANSACTION_CREATION_FAILED'',
             transactionReffId := Some ''TRX-ORD-1'',
             transactionDetails := Some (JObj [(''error'', JStr ''Stok kosong'')])\<rparr>],
        [])"
  by (simp add: order_status_def reconcile_def reconcile_deposit_def reconcile_transaction_def
        try_create_transaction_def ex_order_def response_ok_def validate_def spread_def
        assign_props_def or_default_def upper_examples Let_def)

text \<open>
  C9. The specification has every reconciliation that contacts the provider update
  \<^verbatim>\<open>updatedAt\<close> and persist it. When the deposit-status call returns a business-level
  failure, the handler has called the provider, yet it returns the order with its old
  \<^verbatim>\<open>updatedAt\<close> and saves nothing; on the same answer to a transaction-status call,
  the sibling branch sets \<^verbatim>\<open>updatedAt\<close> and saves (in general, by
  \<open>refused_deposit_poll_changes_nothing\<close> and \<open>refused_transaction_poll_updates\<close>; here
  on the example order).
\<close>

theorem refused_deposit_poll_keeps_updatedAt:
  "order_status \<lparr>fetchAtlanticAPI = ex_refusing, now = 2000\<rparr> [''ORD-1'' \<mapsto> ex_order] ''ORD-1''
     = (Order_data ex_order, [''ORD-1'' \<mapsto> ex_order], [Deposit_status (Some ''D1'')])
   \<and> updatedAt ex_order = 1000
   \<and> order_status \<lparr>fetchAtlanticAPI = ex_refusing, now = 2000\<rparr>
        [''ORD-1'' \<mapsto> ex_order\<lparr>status := ''ORDER_PROCESSING'', atlanticTransactionId := Some ''T1''\<rparr>]
        ''ORD-1''
     = (Order_data (ex_order\<lparr>status := ''ORDER_PROCESSING'', atlanticTransactionId := Some ''T1'',
                              updatedAt := 2000\<rparr>),
        [''ORD-1'' \<mapsto> ex_order\<lparr>status := ''ORDER_PROCESSING'', atlanticTransactionId := Some ''T1'',
                              updatedAt := 2000\<rparr>],
        [Transaksi_status (Some ''T1'')])"
  by (simp add: order_status_def reconcile_def reconcile_deposit_def reconcile_transaction_def
        ex_order_def ex_refusing_def response_ok_def validate_def)

section \<open>The deposit branch of the state machine\<close>

text \<open>
  C1. For every stored order in \<^verbatim>\<open>PENDING_PAYMENT\<close> or \<^verbatim>\<open>PAYMENT_PROCESSING\<close>, when the
  deposit-status call returns ok with a status string, the next status is a function of
  that string in upper case: \<^verbatim>\<open>EXPIRED\<close>, \<^verbatim>\<open>FAILED\<close> or \<^verbatim>\<open>CANCEL\<close> give
  \<^verbatim>\<open>PAYMENT_\<close> followed by it, \<^verbatim>\<open>PENDING\<close> gives \<^verbatim>\<open>PENDING_PAYMENT\<close>, any other value
  but \<^verbatim>\<open>SUCCESS\<close> gives \<^verbatim>\<open>PAYMENT_PROCESSING\<close>, and the order is saved. On \<^verbatim>\<open>SUCCESS\<close>
  the status is set to \<^verbatim>\<open>PAYMENT_SUCCESSFUL_PROCESSING_ORDER\<close> and, in the same request,
  transaction creation is attempted on that document with reference \<^verbatim>\<open>TRX-<orderId>\<close>;
  when the creation succeeds with provider status \<^verbatim>\<open>PENDING\<close> (and a transaction id the
  schema can hold), the order is saved with status \<^verbatim>\<open>ORDER_PROCESSING\<close>.
\<close>

theorem deposit_transitions:
  assumes oid: "oid \<noteq> []" and db: "db oid = Some d" and valid: "validate d"
    and st: "status d = ''PENDING_PAYMENT'' \<or> status d = ''PAYMENT_PROCESSING''"
    and fetch: "fetchAtlanticAPI env (Deposit_status (atlanticDepositId d)) = Inr r"
    and ok: "response_ok r = Inr (Some data)"
    and s: "get ''status'' data = Some (JStr s)"
  shows
    "(toUpperCase s \<noteq> ''SUCCESS'' \<longrightarrow>
        (\<exists>d'. order_status env db oid =
                 (Order_data d', db(oid \<mapsto> d'), [Deposit_status (atlanticDepositId d)])
            \<and> status d' =
                (if toUpperCase s \<in> set [''EXPIRED'', ''FAILED'', ''CANCEL'']
                 then ''PAYMENT_'' @ toUpperCase s
                 else if toUpperCase s = ''PENDING'' then ''PENDING_PAYMENT''
                 else ''PAYMENT_PROCESSING'')))
     \<and> (toUpperCase s = ''SUCCESS'' \<longrightarrow>
        (let reff = ''TRX-'' @ orderId d;
             d2 = d\<lparr>updatedAt := now env,
                     depositDetails := Some (spread (depositDetails d) (Some data)),
                     status := ''PAYMENT_SUCCESSFUL_PROCESSING_ORDER'',
                     transactionReffId := Some reff\<rparr>;
             c2 = Transaksi_create (productId d) reff (targetId d)
         in reconcile env d =
              (Saving (fst (try_create_transaction [] env reff d2))
                      (fst (snd (try_create_transaction [] env reff d2))),
               [Deposit_status (atlanticDepositId d), c2])
            \<and> (\<forall>cr cdata t.
                  fetchAtlanticAPI env c2 = Inr cr \<and> response_ok cr = Inr (Some cdata)
                  \<and> get ''status'' cdata = Some (JStr t) \<and> toUpperCase t = ''PENDING''
                  \<and> castString (get ''id'' cdata) \<noteq> CastError
                  \<longrightarrow> (\<exists>d'. order_status env db oid =
                             (Order_data d', db(oid \<mapsto> d'),
                              [Deposit_status (atlanticDepositId d), c2])
                          \<and> status d' = ''ORDER_PROCESSING''))))"
proof (intro conjI impI)
  assume ns: "toUpperCase s \<noteq> ''SUCCESS''"
  from valid have v: "\<And>x f1 f2. x \<noteq> [] \<Longrightarrow> validate (d\<lparr>updatedAt := f1, depositDetails := f2, status := x\<rparr>)"
    by (simp add: validate_def)
  show "\<exists>d'. order_status env db oid =
                 (Order_data d', db(oid \<mapsto> d'), [Deposit_status (atlanticDepositId d)])
            \<and> status d' =
                (if toUpperCase s \<in> set [''EXPIRED'', ''FAILED'', ''CANCEL'']
                 then ''PAYMENT_'' @ toUpperCase s
                 else if toUpperCase s = ''PENDING'' then ''PENDING_PAYMENT''
                 else ''PAYMENT_PROCESSING'')"
    using oid db st fetch ok s ns valid
    by (auto simp: order_status_def reconcile_def reconcile_deposit_def Let_def validate_def)
next
  assume su: "toUpperCase s = ''SUCCESS''"
  let ?reff = "''TRX-'' @ orderId d"
  let ?d2 = "d\<lparr>updatedAt := now env,
                     depositDetails := Some (spread (depositDetails d) (Some data)),
                     status := ''PAYMENT_SUCCESSFUL_PROCESSING_ORDER'',
                     transactionReffId := Some ?reff\<rparr>"
  let ?c2 = "Transaksi_create (productId d) ?reff (targetId d)"
  have calls: "snd (snd (try_create_transaction [] env ?reff ?d2)) = [?c2]"
    by (auto simp: try_create_transaction_def Let_def split: sum.splits option.splits cast.splits prod.splits)
  have rec: "reconcile env d =
              (Saving (fst (try_create_transaction [] env ?reff ?d2))
                      (fst (snd (try_create_transaction [] env ?reff ?d2))),
               [Deposit_status (atlanticDepositId d), ?c2])"
    using st fetch ok s su calls
    by (auto simp: reconcile_def reconcile_deposit_def Let_def split: prod.splits)
  have fin: "\<exists>d'. order_status env db oid =
                             (Order_data d', db(oid \<mapsto> d'),
                              [Deposit_status (atlanticDepositId d), ?c2])
                          \<and> status d' = ''ORDER_PROCESSING''"
    if h: "fetchAtlanticAPI env ?c2 = Inr cr" "response_ok cr = Inr (Some cdata)"
       "get ''status'' cdata = Some (JStr t)" "toUpperCase t = ''PENDING''"
       "castString (get ''id'' cdata) \<noteq> CastError" for cr cdata t
  proof -
    from h(3,4) have tne: "t \<noteq> []" by (auto simp: toUpperCase_def)
    obtain v where cast: "castString (get ''id'' cdata) = Cast v"
      using h(5) by (cases "castString (get ''id'' cdata)") auto
    have "try_create_transaction [] env ?reff ?d2 =
            (?d2\<lparr>atlanticTransactionId := v, transactionDetails := Some cdata,
                  status := ''ORDER_PROCESSING''\<rparr>, False, [?c2])"
      using h tne cast by (simp add: try_create_transaction_def Let_def)
    with rec valid oid db show ?thesis
      by (simp add: order_status_def validate_def)
  qed
  show "let reff = ''TRX-'' @ orderId d;
             d2 = d\<lparr>updatedAt := now env,
                     depositDetails := Some (spread (depositDetails d) (Some data)),
                     status := ''PAYMENT_SUCCESSFUL_PROCESSING_ORDER'',
                     transactionReffId := Some reff\<rparr>;
             c2 = Transaksi_create (productId d) reff (targetId d)
         in reconcile env d =
              (Saving (fst (try_create_transaction [] env reff d2))
                      (fst (snd (try_create_transaction [] env reff d2))),
               [Deposit_status (atlanticDepositId d), c2])
            \<and> (\<forall>cr cdata t.
                  fetchAtlanticAPI env c2 = Inr cr \<and> response_ok cr = Inr (Some cdata)
                  \<and> get ''status'' cdata = Some (JStr t) \<and> toUpperCase t = ''PENDING''
                  \<and> castString (get ''id'' cdata) \<noteq> CastError
                  \<longrightarrow> (\<exists>d'. order_status env db oid =
                             (Order_data d', db(oid \<mapsto> d'),
                              [Deposit_status (atlanticDepositId d), c2])
                          \<and> status d' = ''ORDER_PROCESSING''))"
    unfolding Let_def using rec fin by blast
qed

theorem deposit_transitions_witness:
  "validate ex_order \<and> status ex_order = ''PENDING_PAYMENT''
   \<and> order_status \<lparr>fetchAtlanticAPI = ex_expired, now = 2000\<rparr> [''ORD-1'' \<mapsto> ex_order] ''ORD-1''
     = (Order_data (ex_order\<lparr>updatedAt := 2000,
                      depositDetails := Some (JObj [(''a'', JNum 1), (''b'', JNum 2),
                                                     (''status'', JStr ''expired'')]),
                      status := ''PAYMENT_EXPIRED''\<rparr>),
        [''ORD-1'' \<mapsto> ex_order\<lparr>updatedAt := 2000,
                      depositDetails := Some (JObj [(''a'', JNum 1), (''b'', JNum 2),
                                                     (''status'', JStr ''expired'')]),
                      status := ''PAYMENT_EXPIRED''\<rparr>],
        [Deposit_status (Some ''D1'')])
   \<and> order_status \<lparr>fetchAtlanticAPI = ex_paid, now = 2000\<rparr> [''ORD-1'' \<mapsto> ex_order] ''ORD-1''
     = (Order_data
          (ex_order\<lparr>updatedAt := 2000,
             depositDetails := Some (JObj [(''a'', JNum 1), (''b'', JNum 3),
                                            (''status'', JStr ''success''), (''c'', JNum 4)]),
             status := ''ORDER_PROCESSING'',
             transactionReffId := Some ''TRX-ORD-1'',
             atlanticTransactionId := Some ''T1'',
             transactionDetails := Some (JObj [(''id'', JStr ''T1''), (''status'', JStr ''pending'')])\<rparr>),
        [''ORD-1'' \<mapsto>
          ex_order\<lparr>updatedAt := 2000,
             depositDetails := Some (JObj [(''a'', JNum 1), (''b'', JNum 3),
                                            (''status'', JStr ''success''), (''c'', JNum 4)]),
             status := ''ORDER_PROCESSING'',
             transactionReffId := Some ''TRX-ORD-1'',
             atlanticTransactionId := Some ''T1'',
             transactionDetails := Some (JObj [(''id'', JStr ''T1''), (''status'', JStr ''pending'')])\<rparr>],
        [Deposit_status (Some ''D1''), Transaksi_create ''PLN20'' ''TRX-ORD-1'' ''0812''])"
  using deposit_transitions
          [of "''ORD-1''" "[''ORD-1'' \<mapsto> ex_order]" ex_order
              "\<lparr>fetchAtlanticAPI = ex_expired, now = 2000\<rparr>"
              "JObj [(''status'', JBool True), (''data'', JObj [(''status'', JStr ''expired'')])]"
              "JObj [(''status'', JStr ''expired'')]" "''expired''"]
        deposit_transitions
          [of "''ORD-1''" "[''ORD-1'' \<mapsto> ex_order]" ex_order
              "\<lparr>fetchAtlanticAPI = ex_paid, now = 2000\<rparr>"
              "JObj [(''status'', JBool True),
                     (''data'', JObj [(''status'', JStr ''success''), (''b'', JNum 3), (''c'', JNum 4)])]"
              "JObj [(''status'', JStr ''success''), (''b'', JNum 3), (''c'', JNum 4)]" "''success''"]
  by (simp add: order_status_def reconcile_def reconcile_deposit_def try_create_transaction_def
        ex_order_def ex_expired_def response_ok_def validate_def spread_def assign_props_def
        upper_examples Let_def)

section \<open>Provider payloads in the details fields\<close>

text \<open>
  C8, as the specification states it: whenever reconciliation stores a provider payload
  into \<^verbatim>\<open>depositDetails\<close> or \<^verbatim>\<open>transactionDetails\<close>, it is merged into the stored
  object. The payload of a created transaction is not: for a stored order that already
  has \<^verbatim>\<open>transactionDetails = {a: 1}\<close>, the handler stores the creation payload alone,
  whereas a merge would have kept \<^verbatim>\<open>a\<close>.
\<close>

theorem creation_replaces_transaction_details:
  "order_status \<lparr>fetchAtlanticAPI = ex_paid, now = 2000\<rparr>
     [''ORD-1'' \<mapsto> ex_order\<lparr>transactionDetails := Some (JObj [(''a'', JNum 1)])\<rparr>] ''ORD-1''
   = (Order_data
        (ex_order\<lparr>updatedAt := 2000,
           depositDetails := Some (JObj [(''a'', JNum 1), (''b'', JNum 3),
                                          (''status'', JStr ''success''), (''c'', JNum 4)]),
           status := ''ORDER_PROCESSING'',
           transactionReffId := Some ''TRX-ORD-1'',
           atlanticTransactionId := Some ''T1'',
           transactionDetails := Some (JObj [(''id'', JStr ''T1''), (''status'', JStr ''pending'')])\<rparr>),
      [''ORD-1'' \<mapsto>
        ex_order\<lparr>updatedAt := 2000,
           depositDetails := Some (JObj [(''a'', JNum 1), (''b'', JNum 3),
                                          (''status'', JStr ''success''), (''c'', JNum 4)]),
           status := ''ORDER_PROCESSING'',
           transactionReffId := Some ''TRX-ORD-1'',
           atlanticTransactionId := Some ''T1'',
           transactionDetails := Some (JObj [(''id'', JStr ''T1''), (''status'', JStr ''pending'')])\<rparr>],
      [Deposit_status (Some ''D1''), Transaksi_create ''PLN20'' ''TRX-ORD-1'' ''0812''])
   \<and> spread (Some (JObj [(''a'', JNum 1)]))
         (Some (JObj [(''id'', JStr ''T1''), (''status'', JStr ''pending'')]))
     = JObj [(''a'', JNum 1), (''id'', JStr ''T1''), (''status'', JStr ''pending'')]
   \<and> JObj [(''id'', JStr ''T1''), (''status'', JStr ''pending'')]
     \<noteq> JObj [(''a'', JNum 1), (''id'', JStr ''T1''), (''status'', JStr ''pending'')]"
  by (simp add: order_status_def reconcile_def reconcile_deposit_def try_create_transaction_def
        ex_order_def response_ok_def validate_def spread_def assign_props_def
        toUpperCase_def toUpperChar_def Let_def)

text \<open>
  C8, amended. Whenever an order-status request answers with the order after a
  deposit-status or transaction-status poll that returned ok, the polled payload has
  been merged into the stored details (\<^verbatim>\<open>depositDetails\<close>, respectively
  \<^verbatim>\<open>transactionDetails\<close>) and the result saved: a field of the payload overwrites the
  field of the same name, every other stored field is retained, and absent details
  count as empty; \<^verbatim>\<open>{a:1,b:2}\<close> merged with \<^verbatim>\<open>{b:3,c:4}\<close> is \<^verbatim>\<open>{a:1,b:3,c:4}\<close>. The
  payload of a successful transaction creation replaces \<^verbatim>\<open>transactionDetails\<close>.
\<close>

theorem poll_payloads_are_merged:
  assumes "oid \<noteq> []" and "db oid = Some d"
    and "order_status env db oid = (Order_data d', db', cs)"
  shows
    "(status d \<in> set [''PENDING_PAYMENT'', ''PAYMENT_PROCESSING''] \<longrightarrow>
        (\<forall>r data. fetchAtlanticAPI env (Deposit_status (atlanticDepositId d)) = Inr r
                   \<and> response_ok r = Inr (Some data)
           \<longrightarrow> depositDetails d' = Some (spread (depositDetails d) (Some data))
               \<and> db' = db(oid \<mapsto> d')))
     \<and> (status d \<in> set [''ORDER_PROCESSING'', ''PAYMENT_SUCCESSFUL_PROCESSING_ORDER'',
                            ''TRANSACTION_CREATION_FAILED'']
         \<and> truthy_str (atlanticTransactionId d) \<longrightarrow>
        (\<forall>r data. fetchAtlanticAPI env (Transaksi_status (atlanticTransactionId d)) = Inr r
                   \<and> response_ok r = Inr (Some data)
           \<longrightarrow> transactionDetails d' = Some (spread (transactionDetails d) (Some data))
               \<and> db' = db(oid \<mapsto> d')))
     \<and> (\<forall>a b k. distinct (map fst a) \<and> distinct (map fst b) \<longrightarrow>
           get k (spread (Some (JObj a)) (Some (JObj b)))
             = (case map_of b k of Some v \<Rightarrow> Some v | None \<Rightarrow> map_of a k))
     \<and> (\<forall>b k. distinct (map fst b) \<longrightarrow> get k (spread None (Some (JObj b))) = map_of b k)
     \<and> spread (Some (JObj [(''a'', JNum 1), (''b'', JNum 2)]))
               (Some (JObj [(''b'', JNum 3), (''c'', JNum 4)]))
         = JObj [(''a'', JNum 1), (''b'', JNum 3), (''c'', JNum 4)]
     \<and> (\<forall>suffix reff x c data.
           fetchAtlanticAPI env (Transaksi_create (productId x) reff (targetId x)) = Inr c
           \<and> response_ok c = Inr (Some data)
           \<and> (truthy (get ''status'' data) \<longrightarrow> (\<exists>t. get ''status'' data = Some (JStr t)))
           \<longrightarrow> transactionDetails (fst (try_create_transaction suffix env reff x)) = Some data)"
proof (intro conjI impI allI)
  fix r data
  assume "status d \<in> set [''PENDING_PAYMENT'', ''PAYMENT_PROCESSING'']"
    and "fetchAtlanticAPI env (Deposit_status (atlanticDepositId d)) = Inr r
         \<and> response_ok r = Inr (Some data)"
  with assms show "depositDetails d' = Some (spread (depositDetails d) (Some data))"
    and "db' = db(oid \<mapsto> d')"
    using deposit_poll_merges[of oid db d env d' db' cs r data] by blast+
next
  fix r data
  assume "status d \<in> set [''ORDER_PROCESSING'', ''PAYMENT_SUCCESSFUL_PROCESSING_ORDER'',
                            ''TRANSACTION_CREATION_FAILED'']
         \<and> truthy_str (atlanticTransactionId d)"
    and "fetchAtlanticAPI env (Transaksi_status (atlanticTransactionId d)) = Inr r
         \<and> response_ok r = Inr (Some data)"
  with assms show "transactionDetails d' = Some (spread (transactionDetails d) (Some data))"
    and "db' = db(oid \<mapsto> d')"
    using transaction_poll_merges[of oid db d env d' db' cs r data] by blast+
next
  fix a b :: "(string \<times> jsval) list" and k
  assume "distinct (map fst a) \<and> distinct (map fst b)"
  then show "get k (spread (Some (JObj a)) (Some (JObj b)))
             = (case map_of b k of Some v \<Rightarrow> Some v | None \<Rightarrow> map_of a k)"
    by (simp add: get_spread)
next
  fix b :: "(string \<times> jsval) list" and k
  assume "distinct (map fst b)"
  then show "get k (spread None (Some (JObj b))) = map_of b k"
    by (rule get_spread_absent)
next
  show "spread (Some (JObj [(''a'', JNum 1), (''b'', JNum 2)]))
               (Some (JObj [(''b'', JNum 3), (''c'', JNum 4)]))
         = JObj [(''a'', JNum 1), (''b'', JNum 3), (''c'', JNum 4)]"
    by (simp add: spread_def assign_props_def)
next
  fix suffix reff and x :: order and c data
  assume "fetchAtlanticAPI env (Transaksi_create (productId x) reff (targetId x)) = Inr c
           \<and> response_ok c = Inr (Some data)
           \<and> (truthy (get ''status'' data) \<longrightarrow> (\<exists>t. get ''status'' data = Some (JStr t)))"
  then show "transactionDetails (fst (try_create_transaction suffix env reff x)) = Some data"
    using try_create_transaction_replaces[of env x reff c data suffix] by blast
qed

theorem poll_payloads_are_merged_witness:
  "order_status \<lparr>fetchAtlanticAPI = ex_paid, now = 2000\<rparr>
     [''ORD-1'' \<mapsto> ex_order\<lparr>status := ''ORDER_PROCESSING'', atlanticTransactionId := Some ''T1'',
          transactionDetails := Some (JObj [(''id'', JStr ''T1''), (''status'', JStr ''pending'')])\<rparr>]
     ''ORD-1''
   = (Order_data
        (ex_order\<lparr>status := ''ORDER_COMPLETED'', atlanticTransactionId := Some ''T1'',
           transactionDetails := Some (JObj [(''id'', JStr ''T1''), (''status'', JStr ''success''),
                                              (''sn'', JStr ''123'')]),
           updatedAt := 2000\<rparr>),
      [''ORD-1'' \<mapsto>
        ex_order\<lparr>status := ''ORDER_COMPLETED'', atlanticTransactionId := Some ''T1'',
           transactionDetails := Some (JObj [(''id'', JStr ''T1''), (''status'', JStr ''success''),
                                              (''sn'', JStr ''123'')]),
           updatedAt := 2000\<rparr>],
      [Transaksi_status (Some ''T1'')])
   \<and> spread (Some (JObj [(''id'', JStr ''T1''), (''status'', JStr ''pending'')]))
        (Some (JObj [(''status'', JStr ''success''), (''sn'', JStr ''123'')]))
     = JObj [(''id'', JStr ''T1''), (''status'', JStr ''success''), (''sn'', JStr ''123'')]
   \<and> distinct (map fst [(''a'', JNum 1), (''b'', JNum 2)])
   \<and> distinct (map fst [(''b'', JNum 3), (''c'', JNum 4)])
   \<and> get ''a'' (spread (Some (JObj [(''a'', JNum 1), (''b'', JNum 2)]))
                        (Some (JObj [(''b'', JNum 3), (''c'', JNum 4)]))) = Some (JNum 1)
   \<and> get ''b'' (spread (Some (JObj [(''a'', JNum 1), (''b'', JNum 2)]))
                        (Some (JObj [(''b'', JNum 3), (''c'', JNum 4)]))) = Some (JNum 3)"
proof -
  have run: "order_status \<lparr>fetchAtlanticAPI = ex_paid, now = 2000\<rparr>
     [''ORD-1'' \<mapsto> ex_order\<lparr>status := ''ORDER_PROCESSING'', atlanticTransactionId := Some ''T1'',
          transactionDetails := Some (JObj [(''id'', JStr ''T1''), (''status'', JStr ''pending'')])\<rparr>]
     ''ORD-1''
   = (Order_data
        (ex_order\<lparr>status := ''ORDER_COMPLETED'', atlanticTransactionId := Some ''T1'',
           transactionDetails := Some (JObj [(''id'', JStr ''T1''), (''status'', JStr ''success''),
                                              (''sn'', JStr ''123'')]),
           updatedAt := 2000\<rparr>),
      [''ORD-1'' \<mapsto>
        ex_order\<lparr>status := ''ORDER_COMPLETED'', atlanticTransactionId := Some ''T1'',
           transactionDetails := Some (JObj [(''id'', JStr ''T1''), (''status'', JStr ''success''),
                                              (''sn'', JStr ''123'')]),
           updatedAt := 2000\<rparr>],
      [Transaksi_status (Some ''T1'')])"
    by (simp add: order_status_def reconcile_def reconcile_transaction_def response_ok_def
          transaction_next_status_def validate_def spread_def assign_props_def ex_order_def
          upper_examples Let_def)
  have a: "''ORD-1'' \<noteq> []" by simp
  have b: "[''ORD-1'' \<mapsto> x] ''ORD-1'' = Some x" for x :: order by simp
  show ?thesis
    using poll_payloads_are_merged[OF a b run] run
    by (simp add: spread_def assign_props_def)
qed

section \<open>Cancellation\<close>

text \<open>
  C6, as the specification states it: the cancel-order handler modifies the order only
  when the provider's cancel response has status \<^verbatim>\<open>true\<close> and its nested status equals
  \<^verbatim>\<open>cancel\<close> up to letter case, and then the status field of the deposit details is
  forced to \<^verbatim>\<open>cancel\<close>. The handler tests \<^verbatim>\<open>cancelResponse.status\<close> for truthiness:
  a response whose status is the string \<^verbatim>\<open>false\<close> cancels the order. In the same run
  the order loaded with details \<^verbatim>\<open>{a: 1, b: 2}\<close> is answered with
  \<^verbatim>\<open>status: 'cancel'\<close> in its details and stored with the details it was loaded with.
\<close>

theorem cancel_on_status_that_is_not_true:
  "ex_status_text (Deposit_cancel (Some ''D1''))
     = Inr (JObj [(''status'', JStr ''false''), (''data'', JObj [(''status'', JStr ''cancel'')])])
   \<and> JStr ''false'' \<noteq> JBool True
   \<and> cancel_order \<lparr>fetchAtlanticAPI = ex_status_text, now = 2000\<rparr>
        [''ORD-1'' \<mapsto> ex_order] ''ORD-1''
     = (Cancelled (ex_order\<lparr>status := ''PAYMENT_CANCELLED'', updatedAt := 2000,
                     depositDetails := Some (JObj [(''a'', JNum 1), (''b'', JNum 2),
                                                    (''status'', JStr ''cancel'')])\<rparr>),
        [''ORD-1'' \<mapsto> ex_order\<lparr>status := ''PAYMENT_CANCELLED'', updatedAt := 2000,
                     depositDetails := Some (JObj [(''a'', JNum 1), (''b'', JNum 2)])\<rparr>],
        [Deposit_cancel (Some ''D1'')])"
  by (simp add: cancel_order_def cancel_ok_def response_ok_def set_status_cancel_def
        ex_order_def validate_def toLowerCase_def toLowerChar_def Let_def)

text \<open>
  What a successful cancellation stores when the order was loaded with truthy deposit
  details: the assigned \<^verbatim>\<open>status\<close> and \<^verbatim>\<open>updatedAt\<close>, and the details as loaded.
\<close>

lemma cancel_order_keeps_stored_details:
  assumes "cancel_order env db oid = (Cancelled d', db', cs)"
    and "db oid = Some d" and "truthy (depositDetails d)"
  shows "db' = db(oid \<mapsto> d\<lparr>status := ''PAYMENT_CANCELLED'', updatedAt := now env\<rparr>)"
  using assms
  by (auto simp: cancel_order_def Let_def split: if_splits sum.splits)

text \<open>
  C6, amended. The cancel-order handler rejects a request without contacting the
  provider when the order is absent, has no provider deposit id, or is not in
  \<^verbatim>\<open>PENDING_PAYMENT\<close> or \<^verbatim>\<open>PAYMENT_PROCESSING\<close>. Otherwise it calls the provider's cancel
  endpoint once, and it modifies the order exactly when the response has a truthy
  \<^verbatim>\<open>status\<close> and its \<^verbatim>\<open>data.status\<close> is a string equal to \<^verbatim>\<open>cancel\<close> up to letter case
  (and the order satisfies the schema). Then the stored order gets the status
  \<^verbatim>\<open>PAYMENT_CANCELLED\<close> and the current time as \<^verbatim>\<open>updatedAt\<close>, and no field other than
  these two and the deposit details differs from the order as loaded; the order in the
  response is the loaded one with these two fields set and \<^verbatim>\<open>status: 'cancel'\<close> set in
  its deposit details; and when the order was loaded with falsy deposit details, the
  details object \<^verbatim>\<open>{status: 'cancel'}\<close> is created, stored and returned. On every
  other outcome the store is unchanged and the response is an error.
\<close>

theorem cancel_order_cases:
  assumes run: "cancel_order env db oid = (res, db', cs)"
  shows
    "(case db oid of
        None \<Rightarrow> db' = db \<and> cs = [] \<and> (\<exists>code msg. res = Failure code msg)
      | Some d \<Rightarrow>
          if oid = [] \<or> \<not> truthy_str (atlanticDepositId d)
             \<or> status d \<notin> set [''PENDING_PAYMENT'', ''PAYMENT_PROCESSING'']
          then db' = db \<and> cs = [] \<and> (\<exists>code msg. res = Failure code msg)
          else cs = [Deposit_cancel (atlanticDepositId d)] \<and>
            (if (\<exists>r data s. fetchAtlanticAPI env (Deposit_cancel (atlanticDepositId d)) = Inr r
                    \<and> truthy (get ''status'' r) \<and> get ''data'' r = Some data
                    \<and> get ''status'' data = Some (JStr s) \<and> toLowerCase s = ''cancel'')
                \<and> validate d
             then (\<exists>d' dd. res = Cancelled d'
                     \<and> db' = db(oid \<mapsto> d\<lparr>status := ''PAYMENT_CANCELLED'', updatedAt := now env,
                                          depositDetails := dd\<rparr>)
                     \<and> d' = d\<lparr>status := ''PAYMENT_CANCELLED'', updatedAt := now env,
                              depositDetails := set_status_cancel (depositDetails d)\<rparr>
                     \<and> (\<not> truthy (depositDetails d) \<longrightarrow>
                            dd = Some (JObj [(''status'', JStr ''cancel'')])
                          \<and> depositDetails d' = Some (JObj [(''status'', JStr ''cancel'')]))
                     \<and> (\<forall>kvs. depositDetails d = Some (JObj kvs) \<longrightarrow>
                            (\<exists>kvs'. depositDetails d' = Some (JObj kvs')
                               \<and> map_of kvs' = (map_of kvs)(''status'' \<mapsto> JStr ''cancel''))))
             else db' = db \<and> (\<exists>code msg. res = Failure code msg)))"
proof (cases "db oid")
  case None
  with run show ?thesis by (auto simp: cancel_order_def split: if_splits)
next
  case (Some d)
  show ?thesis
  proof (cases "oid = [] \<or> \<not> truthy_str (atlanticDepositId d)
             \<or> status d \<notin> set [''PENDING_PAYMENT'', ''PAYMENT_PROCESSING'']")
    case True
    with run Some show ?thesis by (auto simp: cancel_order_def split: if_splits)
  next
    case pre: False
    let ?c = "Deposit_cancel (atlanticDepositId d)"
    let ?good = "\<exists>r data s. fetchAtlanticAPI env ?c = Inr r
                    \<and> truthy (get ''status'' r) \<and> get ''data'' r = Some data
                    \<and> get ''status'' data = Some (JStr s) \<and> toLowerCase s = ''cancel''"
    let ?d1 = "d\<lparr>status := ''PAYMENT_CANCELLED'', updatedAt := now env,
                  depositDetails := set_status_cancel (depositDetails d)\<rparr>"
    have good_iff: "?good \<longleftrightarrow> (\<exists>r. fetchAtlanticAPI env ?c = Inr r \<and> cancel_ok r = Inr True)"
    proof
      assume ?good
      then obtain r data s where g: "fetchAtlanticAPI env ?c = Inr r" "truthy (get ''status'' r)"
        "get ''data'' r = Some data" "get ''status'' data = Some (JStr s)" "toLowerCase s = ''cancel''"
        by blast
      from g(4) obtain kvs where "data = JObj kvs" by (cases data) auto
      moreover from g(2) have "r \<noteq> JNull" by auto
      moreover from g(4,5) have "s \<noteq> []" by (auto simp: toLowerCase_def)
      ultimately have "cancel_ok r = Inr True"
        using g by (simp add: cancel_ok_def response_ok_def)
      with g(1) show "\<exists>r. fetchAtlanticAPI env ?c = Inr r \<and> cancel_ok r = Inr True" by blast
    next
      assume "\<exists>r. fetchAtlanticAPI env ?c = Inr r \<and> cancel_ok r = Inr True"
      then obtain r where r: "fetchAtlanticAPI env ?c = Inr r" "cancel_ok r = Inr True" by blast
      from r(2) obtain data where d: "response_ok r = Inr (Some data)"
        by (auto simp: cancel_ok_def split: sum.splits option.splits)
      from d have t: "truthy (get ''status'' r)" "get ''data'' r = Some data"
        by (auto simp: response_ok_def split: if_splits)
      from r(2) d obtain s where "get ''status'' data = Some (JStr s)" "toLowerCase s = ''cancel''"
        by (auto simp: cancel_ok_def split: sum.splits if_splits elim!: call_case_method.elims)
      with r(1) t show ?good by blast
    qed
    show ?thesis
    proof (cases "?good \<and> validate d")
      case True
      then obtain r where r: "fetchAtlanticAPI env ?c = Inr r" "cancel_ok r = Inr True"
        using good_iff by blast
      from True have v: "validate ?d1"
        by (simp add: validate_def)
      have upd: "\<forall>kvs. depositDetails d = Some (JObj kvs) \<longrightarrow>
                   (\<exists>kvs'. set_status_cancel (depositDetails d) = Some (JObj kvs')
                       \<and> map_of kvs' = (map_of kvs)(''status'' \<mapsto> JStr ''cancel''))"
        by (auto simp: set_status_cancel_def update_conv')
      have none: "\<not> truthy (depositDetails d) \<longrightarrow>
                   set_status_cancel (depositDetails d) = Some (JObj [(''status'', JStr ''cancel'')])"
        by (simp add: set_status_cancel_def)
      define dd where "dd = (if truthy (depositDetails d) then depositDetails d
                             else set_status_cancel (depositDetails d))"
      from run Some pre r v have
        "res = Cancelled ?d1
         \<and> db' = db(oid \<mapsto> d\<lparr>status := ''PAYMENT_CANCELLED'', updatedAt := now env,
                              depositDetails := dd\<rparr>)
         \<and> cs = [?c]"
        by (auto simp: cancel_order_def Let_def dd_def)
      moreover from none have
        "\<not> truthy (depositDetails d) \<longrightarrow> dd = Some (JObj [(''status'', JStr ''cancel'')])"
        by (simp add: dd_def)
      ultimately have
        "cs = [?c] \<and>
         (\<exists>d' dd. res = Cancelled d'
             \<and> db' = db(oid \<mapsto> d\<lparr>status := ''PAYMENT_CANCELLED'', updatedAt := now env,
                                  depositDetails := dd\<rparr>)
             \<and> d' = ?d1
             \<and> (\<not> truthy (depositDetails d) \<longrightarrow>
                    dd = Some (JObj [(''status'', JStr ''cancel'')])
                  \<and> depositDetails d' = Some (JObj [(''status'', JStr ''cancel'')]))
             \<and> (\<forall>kvs. depositDetails d = Some (JObj kvs) \<longrightarrow>
                    (\<exists>kvs'. depositDetails d' = Some (JObj kvs')
                       \<and> map_of kvs' = (map_of kvs)(''status'' \<mapsto> JStr ''cancel''))))"
        using upd none by (intro conjI exI[of _ ?d1] exI[of _ dd]) simp_all
      then show ?thesis
        by (simp only: Some option.case if_not_P[OF pre] if_P[OF True])
    next
      case nogood: False
      have "db' = db \<and> cs = [?c] \<and> (\<exists>code msg. res = Failure code msg)"
      proof (cases "fetchAtlanticAPI env ?c")
        case (Inl e)
        with run Some pre show ?thesis by (auto simp: cancel_order_def Let_def)
      next
        case (Inr r)
        show ?thesis
        proof (cases "cancel_ok r")
          case (Inl e)
          with run Some pre Inr show ?thesis by (auto simp: cancel_order_def Let_def)
        next
          case ok: (Inr b)
          show ?thesis
          proof (cases b)
            case True
            with ok Inr good_iff nogood have "\<not> validate d" by auto
            with pre have "\<not> validate ?d1"
              by (auto simp: validate_def)
            with run Some pre Inr ok True show ?thesis
              by (auto simp: cancel_order_def Let_def)
          next
            case False
            with run Some pre Inr ok show ?thesis
              by (auto simp: cancel_order_def Let_def)
          qed
        qed
      qed
      then show ?thesis
        by (simp only: Some option.case if_not_P[OF pre] if_not_P[OF nogood])
    qed
  qed
qed

theorem cancel_order_cases_witness:
  "cancel_order \<lparr>fetchAtlanticAPI = ex_paid, now = 2000\<rparr> [''ORD-1'' \<mapsto> ex_order] ''ORD-1''
     = (Cancelled (ex_order\<lparr>status := ''PAYMENT_CANCELLED'', updatedAt := 2000,
                     depositDetails := Some (JObj [(''a'', JNum 1), (''b'', JNum 2),
                                                    (''status'', JStr ''cancel'')])\<rparr>),
        [''ORD-1'' \<mapsto> ex_order\<lparr>status := ''PAYMENT_CANCELLED'', updatedAt := 2000,
                     depositDetails := Some (JObj [(''a'', JNum 1), (''b'', JNum 2)])\<rparr>],
        [Deposit_cancel (Some ''D1'')])
   \<and> cancel_order \<lparr>fetchAtlanticAPI = ex_paid, now = 2000\<rparr>
        [''ORD-1'' \<mapsto> ex_order\<lparr>depositDetails := None\<rparr>] ''ORD-1''
     = (Cancelled (ex_order\<lparr>status := ''PAYMENT_CANCELLED'', updatedAt := 2000,
                     depositDetails := Some (JObj [(''status'', JStr ''cancel'')])\<rparr>),
        [''ORD-1'' \<mapsto> ex_order\<lparr>status := ''PAYMENT_CANCELLED'', updatedAt := 2000,
                     depositDetails := Some (JObj [(''status'', JStr ''cancel'')])\<rparr>],
        [Deposit_cancel (Some ''D1'')])
   \<and> cancel_order \<lparr>fetchAtlanticAPI = ex_refusing, now = 2000\<rparr> [''ORD-1'' \<mapsto> ex_order] ''ORD-1''
     = (Failure 500 (JStr ''Saldo habis''), [''ORD-1'' \<mapsto> ex_order], [Deposit_cancel (Some ''D1'')])
   \<and> cancel_order \<lparr>fetchAtlanticAPI = ex_paid, now = 2000\<rparr>
        [''ORD-1'' \<mapsto> ex_order\<lparr>status := ''ORDER_COMPLETED''\<rparr>] ''ORD-1''
     = (Failure 400 (JStr ''Pesanan status ORDER_COMPLETED tidak bisa dibatalkan.''),
        [''ORD-1'' \<mapsto> ex_order\<lparr>status := ''ORDER_COMPLETED''\<rparr>], [])
   \<and> cancel_order \<lparr>fetchAtlanticAPI = ex_paid, now = 2000\<rparr> [''ORD-1'' \<mapsto> ex_order] ''ORD-2''
     = (Failure 404 (JStr ''Pesanan tidak ditemukan.''), [''ORD-1'' \<mapsto> ex_order], [])"
proof -
  have 1: "cancel_order \<lparr>fetchAtlanticAPI = ex_paid, now = 2000\<rparr> [''ORD-1'' \<mapsto> ex_order] ''ORD-1''
     = (Cancelled (ex_order\<lparr>status := ''PAYMENT_CANCELLED'', updatedAt := 2000,
                     depositDetails := Some (JObj [(''a'', JNum 1), (''b'', JNum 2),
                                                    (''status'', JStr ''cancel'')])\<rparr>),
        [''ORD-1'' \<mapsto> ex_order\<lparr>status := ''PAYMENT_CANCELLED'', updatedAt := 2000,
                     depositDetails := Some (JObj [(''a'', JNum 1), (''b'', JNum 2)])\<rparr>],
        [Deposit_cancel (Some ''D1'')])"
    by (simp add: cancel_order_def cancel_ok_def response_ok_def set_status_cancel_def
          ex_order_def validate_def lower_cancel Let_def)
  have 2: "cancel_order \<lparr>fetchAtlanticAPI = ex_paid, now = 2000\<rparr>
        [''ORD-1'' \<mapsto> ex_order\<lparr>depositDetails := None\<rparr>] ''ORD-1''
     = (Cancelled (ex_order\<lparr>status := ''PAYMENT_CANCELLED'', updatedAt := 2000,
                     depositDetails := Some (JObj [(''status'', JStr ''cancel'')])\<rparr>),
        [''ORD-1'' \<mapsto> ex_order\<lparr>status := ''PAYMENT_CANCELLED'', updatedAt := 2000,
                     depositDetails := Some (JObj [(''status'', JStr ''cancel'')])\<rparr>],
        [Deposit_cancel (Some ''D1'')])"
    by (simp add: cancel_order_def cancel_ok_def response_ok_def set_status_cancel_def
          ex_order_def validate_def lower_cancel Let_def)
  have 3: "cancel_order \<lparr>fetchAtlanticAPI = ex_refusing, now = 2000\<rparr> [''ORD-1'' \<mapsto> ex_order] ''ORD-1''
     = (Failure 500 (JStr ''Saldo habis''), [''ORD-1'' \<mapsto> ex_order], [Deposit_cancel (Some ''D1'')])"
    by (simp add: cancel_order_def cancel_ok_def response_ok_def ex_refusing_def or_default_def
          ex_order_def Let_def)
  have 4: "cancel_order \<lparr>fetchAtlanticAPI = ex_paid, now = 2000\<rparr>
        [''ORD-1'' \<mapsto> ex_order\<lparr>status := ''ORDER_COMPLETED''\<rparr>] ''ORD-1''
     = (Failure 400 (JStr ''Pesanan status ORDER_COMPLETED tidak bisa dibatalkan.''),
        [''ORD-1'' \<mapsto> ex_order\<lparr>status := ''ORDER_COMPLETED''\<rparr>], [])"
    by (simp add: cancel_order_def ex_order_def)
  have 5: "cancel_order \<lparr>fetchAtlanticAPI = ex_paid, now = 2000\<rparr> [''ORD-1'' \<mapsto> ex_order] ''ORD-2''
     = (Failure 404 (JStr ''Pesanan tidak ditemukan.''), [''ORD-1'' \<mapsto> ex_order], [])"
    by (simp add: cancel_order_def)
  from cancel_order_cases[OF 1] cancel_order_cases[OF 2] cancel_order_cases[OF 3]
       cancel_order_cases[OF 4] cancel_order_cases[OF 5] 1 2 3 4 5
  show ?thesis by blast
qed

section \<open>Order creation\<close>

text \<open>
  C3. If the deposit-opening call fails (the provider's answer has a falsy \<^verbatim>\<open>status\<close>
  or no \<^verbatim>\<open>data\<close>, or \<^verbatim>\<open>fetchAtlanticAPI\<close> throws), the create-order handler answers
  with an error and leaves the store as it was: looking up the generated order id finds
  no order.
\<close>

theorem failed_deposit_creates_no_order:
  assumes fails: "\<forall>reff nominal t m.
            case fetchAtlanticAPI env (Deposit_create reff nominal t m) of
              Inl e \<Rightarrow> True
            | Inr r \<Rightarrow> r = JNull \<or> \<not> truthy (get ''status'' r) \<or> \<not> truthy (get ''data'' r)"
    and fresh: "db (''ORD-'' @ digits (now env) @ ''-'' @ random_part) = None"
  shows "\<exists>code msg cs.
           create_order env random_part productsCache paymentMethodsCache db body
             = (Failure code msg, db, cs)
           \<and> fst (snd (create_order env random_part productsCache paymentMethodsCache db body))
                (''ORD-'' @ digits (now env) @ ''-'' @ random_part) = None"
proof -
  have "\<exists>code msg cs.
           create_order env random_part productsCache paymentMethodsCache db body
             = (Failure code msg, db, cs)"
  proof -
    have no: "response_ok r \<noteq> Inr (Some data)"
      if "fetchAtlanticAPI env (Deposit_create reff nominal t m) = Inr r" for reff nominal t m r data
      using fails[rule_format, of reff nominal t m] that
      by (auto simp: response_ok_def)
    show ?thesis
      unfolding create_order_def Let_def
      by (auto split: option.splits sum.splits dest: no)
  qed
  with fresh show ?thesis by auto
qed

theorem failed_deposit_creates_no_order_witness:
  "create_order \<lparr>fetchAtlanticAPI = ex_refusing, now = 1000\<rparr> ''K3J9QZ'' [ex_product] [ex_method]
       Map.empty ex_body
     = (Failure 500 (JStr ''Saldo habis''), Map.empty,
        [Deposit_create ''DEP-ORD-1000-K3J9QZ'' (Fin 10850) ''va'' ''BCA''])
   \<and> create_order \<lparr>fetchAtlanticAPI = ex_unreachable, now = 1000\<rparr> ''K3J9QZ'' [ex_product]
       [ex_method] Map.empty ex_body
     = (Failure 500 (JStr ''Gagal memproses pesanan: fetch failed''), Map.empty,
        [Deposit_create ''DEP-ORD-1000-K3J9QZ'' (Fin 10850) ''va'' ''BCA''])"
  using failed_deposit_creates_no_order
          [where env = "\<lparr>fetchAtlanticAPI = ex_refusing, now = 1000\<rparr>" and db = Map.empty
             and random_part = "''K3J9QZ''" and productsCache = "[ex_product]"
             and paymentMethodsCache = "[ex_method]" and body = ex_body]
        failed_deposit_creates_no_order
          [where env = "\<lparr>fetchAtlanticAPI = ex_unreachable, now = 1000\<rparr>" and db = Map.empty
             and random_part = "''K3J9QZ''" and productsCache = "[ex_product]"
             and paymentMethodsCache = "[ex_method]" and body = ex_body]
  by (simp add: create_order_def ex_product_def ex_method_def ex_body_def lower_pln digits_1000
        or_zero_def ex_nums response_ok_def or_default_def ex_refusing_def ex_unreachable_def
        Let_def del: jadd.simps jmul.simps jdiv100.simps ceil.simps)

text \<open>
  C2, as the specification states it: \<open>totalAmountDue = ceil(basePrice + totalAdminFee)\<close>
  with the fees computed by the formulas in exact arithmetic. The handler computes in
  double precision and rounds after every operation: for a base price of 45, a flat fee
  of 0 and a fee percent of 158 it charges 118, where the exact formulas give 117.
\<close>

theorem rounded_total_exceeds_exact_total:
  "fst (create_order \<lparr>fetchAtlanticAPI = ex_paid, now = 1000\<rparr> ''K3J9QZ''
          [ex_product\<lparr>price := Fin 45\<rparr>] [ex_method\<lparr>fee := Fin 0, fee_persen := Fin 158\<rparr>]
          Map.empty ex_body)
   = Created ''ORD-1000-K3J9QZ'' (JObj [(''id'', JStr ''D1''), (''status'', JStr ''pending'')])
       ''Token 10K'' ''0812'' (Fin 45) (Fin (5066549580791809 / 70368744177664)) (Fin 118)
   \<and> spec_totalAmountDue 45 0 158 = 117"
  by (simp add: create_order_def ex_product_def ex_method_def ex_body_def lower_pln digits_1000
        or_zero_def cx_nums response_ok_def validate_def spec_totalAmountDue_def Let_def
        del: jadd.simps jmul.simps jdiv100.simps ceil.simps)

text \<open>
  C2, amended. For every order the handler creates, with the flat fee and fee percent
  of the payment method read as 0 when they are \<^verbatim>\<open>NaN\<close> or 0, the stored fees and the
  amount follow the formulas in double-precision arithmetic, each operation rounded to
  the nearest double: \<open>paymentMethodFee = flatFee + basePrice * (feePercent / 100)\<close>,
  \<open>globalAdminFee = basePrice * (2 / 100)\<close>,
  \<open>totalAdminFee = paymentMethodFee + globalAdminFee\<close> and
  \<open>totalAmountDue = ceil(basePrice + totalAdminFee)\<close>, which is also the nominal sent to
  the provider. The amount depends on the catalog entries only: any two successful
  creations for the same request and catalogs charge the same amount, whatever the
  clock, the random id, the store and the provider's answer. For a base price of 10000,
  a flat fee of 500 and a fee percent of 1.5 the values are 650, 200, 850 and 10850.
\<close>

theorem create_order_pricing:
  assumes run: "create_order env rp pc pmc db body
                  = (Created oid data pname tid base tfee due, db', cs)"
  shows
    "(\<exists>p pm d.
        find (\<lambda>p. code p = req_body.productId body
               \<and> (toLowerCase (provider p) = toLowerCase (req_body.providerName body)
                  \<or> toLowerCase (category p) = toLowerCase (req_body.providerName body))) pc
          = Some p
        \<and> find (\<lambda>pm. metode pm = req_body.paymentMethodCode body) pmc = Some pm
        \<and> db' = db(oid \<mapsto> d)
        \<and> productPrice d = price p \<and> base = price p
        \<and> adminFeePaymentMethod d
            = jadd (or_zero (fee pm)) (jmul (price p) (jdiv100 (or_zero (fee_persen pm))))
        \<and> adminFeeGlobal d = jmul (price p) (jdiv100 (Fin 2))
        \<and> totalAdminFee d = jadd (adminFeePaymentMethod d) (adminFeeGlobal d)
        \<and> tfee = totalAdminFee d
        \<and> totalAmountToPayForDeposit d = ceil (jadd (price p) (totalAdminFee d))
        \<and> due = totalAmountToPayForDeposit d
        \<and> cs = [Deposit_create (''DEP-'' @ oid) due (type pm) (metode pm)])
     \<and> (\<forall>env2 rp2 db2 oid2 data2 pname2 tid2 base2 tfee2 due2 db2' cs2.
           create_order env2 rp2 pc pmc db2 body
             = (Created oid2 data2 pname2 tid2 base2 tfee2 due2, db2', cs2)
           \<longrightarrow> due2 = due)
     \<and> create_order \<lparr>fetchAtlanticAPI = ex_paid, now = 1000\<rparr> ''K3J9QZ'' [ex_product] [ex_method]
         Map.empty ex_body
       = (Created ''ORD-1000-K3J9QZ'' (JObj [(''id'', JStr ''D1''), (''status'', JStr ''pending'')])
            ''Token 10K'' ''0812'' (Fin 10000) (Fin 850) (Fin 10850),
          [''ORD-1000-K3J9QZ'' \<mapsto>
             \<lparr>orderId = ''ORD-1000-K3J9QZ'', productId = ''PLN10'', productName = ''Token 10K'',
              productPrice = Fin 10000, providerName = ''PLN'', productImgUrl = None,
              targetId = ''0812'', paymentMethodCode = ''BCA'', paymentMethodName = ''BCA VA'',
              adminFeePaymentMethod = Fin 650, adminFeeGlobal = Fin 200, totalAdminFee = Fin 850,
              totalAmountToPayForDeposit = Fin 10850, status = ''PENDING_PAYMENT'',
              atlanticDepositId = Some ''D1'', depositReffId = Some ''DEP-ORD-1000-K3J9QZ'',
              depositDetails = Some (JObj [(''id'', JStr ''D1''), (''status'', JStr ''pending'')]),
              atlanticTransactionId = None, transactionReffId = None, transactionDetails = None,
              createdAt = 1000, updatedAt = 1000\<rparr>],
          [Deposit_create ''DEP-ORD-1000-K3J9QZ'' (Fin 10850) ''va'' ''BCA''])"
proof (intro conjI allI impI)
  show "\<exists>p pm d.
        find (\<lambda>p. code p = req_body.productId body
               \<and> (toLowerCase (provider p) = toLowerCase (req_body.providerName body)
                  \<or> toLowerCase (category p) = toLowerCase (req_body.providerName body))) pc
          = Some p
        \<and> find (\<lambda>pm. metode pm = req_body.paymentMethodCode body) pmc = Some pm
        \<and> db' = db(oid \<mapsto> d)
        \<and> productPrice d = price p \<and> base = price p
        \<and> adminFeePaymentMethod d
            = jadd (or_zero (fee pm)) (jmul (price p) (jdiv100 (or_zero (fee_persen pm))))
        \<and> adminFeeGlobal d = jmul (price p) (jdiv100 (Fin 2))
        \<and> totalAdminFee d = jadd (adminFeePaymentMethod d) (adminFeeGlobal d)
        \<and> tfee = totalAdminFee d
        \<and> totalAmountToPayForDeposit d = ceil (jadd (price p) (totalAdminFee d))
        \<and> due = totalAmountToPayForDeposit d
        \<and> cs = [Deposit_create (''DEP-'' @ oid) due (type pm) (metode pm)]"
    by (rule create_order_created[OF run])
next
  fix env2 rp2 db2 oid2 data2 pname2 tid2 base2 tfee2 due2 db2' cs2
  assume run2: "create_order env2 rp2 pc pmc db2 body
             = (Created oid2 data2 pname2 tid2 base2 tfee2 due2, db2', cs2)"
  from create_order_created[OF run] create_order_created[OF run2]
  show "due2 = due" by (auto simp del: jadd.simps jmul.simps jdiv100.simps ceil.simps)
next
  show "create_order \<lparr>fetchAtlanticAPI = ex_paid, now = 1000\<rparr> ''K3J9QZ'' [ex_product] [ex_method]
         Map.empty ex_body
       = (Created ''ORD-1000-K3J9QZ'' (JObj [(''id'', JStr ''D1''), (''status'', JStr ''pending'')])
            ''Token 10K'' ''0812'' (Fin 10000) (Fin 850) (Fin 10850),
          [''ORD-1000-K3J9QZ'' \<mapsto>
             \<lparr>orderId = ''ORD-1000-K3J9QZ'', productId = ''PLN10'', productName = ''Token 10K'',
              productPrice = Fin 10000, providerName = ''PLN'', productImgUrl = None,
              targetId = ''0812'', paymentMethodCode = ''BCA'', paymentMethodName = ''BCA VA'',
              adminFeePaymentMethod = Fin 650, adminFeeGlobal = Fin 200, totalAdminFee = Fin 850,
              totalAmountToPayForDeposit = Fin 10850, status = ''PENDING_PAYMENT'',
              atlanticDepositId = Some ''D1'', depositReffId = Some ''DEP-ORD-1000-K3J9QZ'',
              depositDetails = Some (JObj [(''id'', JStr ''D1''), (''status'', JStr ''pending'')]),
              atlanticTransactionId = None, transactionReffId = None, transactionDetails = None,
              createdAt = 1000, updatedAt = 1000\<rparr>],
          [Deposit_create ''DEP-ORD-1000-K3J9QZ'' (Fin 10850) ''va'' ''BCA''])"
    by (rule create_order_example)
qed

theorem create_order_pricing_witness:
  "create_order \<lparr>fetchAtlanticAPI = ex_paid, now = 1000\<rparr> ''K3J9QZ'' [ex_product] [ex_method]
       Map.empty ex_body
     = (Created ''ORD-1000-K3J9QZ'' (JObj [(''id'', JStr ''D1''), (''status'', JStr ''pending'')])
          ''Token 10K'' ''0812'' (Fin 10000) (Fin 850) (Fin 10850),
        [''ORD-1000-K3J9QZ'' \<mapsto>
           \<lparr>orderId = ''ORD-1000-K3J9QZ'', productId = ''PLN10'', productName = ''Token 10K'',
            productPrice = Fin 10000, providerName = ''PLN'', productImgUrl = None,
            targetId = ''0812'', paymentMethodCode = ''BCA'', paymentMethodName = ''BCA VA'',
            adminFeePaymentMethod = Fin 650, adminFeeGlobal = Fin 200, totalAdminFee = Fin 850,
            totalAmountToPayForDeposit = Fin 10850, status = ''PENDING_PAYMENT'',
            atlanticDepositId = Some ''D1'', depositReffId = Some ''DEP-ORD-1000-K3J9QZ'',
            depositDetails = Some (JObj [(''id'', JStr ''D1''), (''status'', JStr ''pending'')]),
            atlanticTransactionId = None, transactionReffId = None, transactionDetails = None,
            createdAt = 1000, updatedAt = 1000\<rparr>],
        [Deposit_create ''DEP-ORD-1000-K3J9QZ'' (Fin 10850) ''va'' ''BCA''])
   \<and> jadd (or_zero (fee ex_method))
          (jmul (price ex_product) (jdiv100 (or_zero (fee_persen ex_method)))) = Fin 650
   \<and> jmul (price ex_product) (jdiv100 (Fin 2)) = Fin 200
   \<and> jadd (Fin 650) (Fin 200) = Fin 850
   \<and> ceil (jadd (price ex_product) (Fin 850)) = Fin 10850"
  using create_order_pricing[OF create_order_example]
  by (simp add: ex_product_def ex_method_def or_zero_def ex_nums
           del: jadd.simps jmul.simps jdiv100.simps ceil.simps)

end
